theory Spec2Isabelle
  imports Complex_Main "HOL-Library.Log_Nat"
begin

section \<open>The language layer: numbers\<close>

text \<open>
  \<^verbatim>\<open>script.js\<close> is browser glue: it reads text fields, calls \<^verbatim>\<open>parseFloat\<close>,
  \<^verbatim>\<open>parseInt\<close>, \<^verbatim>\<open>JSON.stringify\<close>, \<^verbatim>\<open>toFixed\<close> and \<^verbatim>\<open>/\<close>, and moves the results
  between the page and two HTTP endpoints.  What the script computes is therefore what
  these built-ins compute, and they are modelled here after ECMA-262.

  A Number is an IEEE 754 binary64 value.  \<open>Fin q\<close> is the finite double whose exact
  value is the rational \<open>q\<close> (\<open>Fin 0\<close> is \<open>+0\<close>); \<open>NegZero\<close> is \<open>-0\<close>.  Every operation
  that makes a new number rounds its exact result to the nearest double
  (\<open>round_double\<close>, ties to even).
\<close>

datatype number = NaN | PosInf | NegInf | NegZero | Fin rat

definition pow2 :: "int \<Rightarrow> rat" where
  "pow2 e = (if 0 \<le> e then 2 ^ nat e else 1 / 2 ^ nat (- e))"

definition pow10 :: "int \<Rightarrow> rat" where
  "pow10 e = (if 0 \<le> e then 10 ^ nat e else 1 / 10 ^ nat (- e))"

text \<open>For \<open>a > 0\<close>, \<open>ilog2 a\<close> is the exponent \<open>e\<close> with \<open>2^e \<le> a < 2^(e+1)\<close>.\<close>

definition ilog2 :: "rat \<Rightarrow> int" where
  "ilog2 a = (if 1 \<le> a then bitlen \<lfloor>a\<rfloor> - 1 else - bitlen (\<lceil>1 / a\<rceil> - 1))"

definition round_half_even :: "rat \<Rightarrow> int" where
  "round_half_even q =
     (let f = \<lfloor>q\<rfloor>; r = q - of_int f
      in if r < 1 / 2 then f else if 1 / 2 < r then f + 1 else if even f then f else f + 1)"

text \<open>
  Rounding to binary64: 53 significant bits, the least exponent \<open>-1022\<close> (below it the
  spacing of the subnormals), overflow to an infinity at \<open>2^1024\<close>, and a zero that keeps
  the sign of what underflowed.
\<close>

definition round_double :: "rat \<Rightarrow> number" where
  "round_double q =
     (if q = 0 then Fin 0
      else let a = \<bar>q\<bar>;
               e = max (ilog2 a) (- 1022);
               ulp = pow2 (e - 52);
               r = of_int (round_half_even (a / ulp)) * ulp
           in if pow2 1024 \<le> r then (if q < 0 then NegInf else PosInf)
              else if r = 0 then (if q < 0 then NegZero else Fin 0)
              else Fin (if q < 0 then - r else r))"

definition is_zero :: "number \<Rightarrow> bool" where
  "is_zero x = (x = NegZero \<or> x = Fin 0)"

definition is_infinite :: "number \<Rightarrow> bool" where
  "is_infinite x = (x = PosInf \<or> x = NegInf)"

fun negative :: "number \<Rightarrow> bool" where
  "negative NegInf = True"
| "negative NegZero = True"
| "negative (Fin q) = (q < 0)"
| "negative _ = False"

text \<open>The exact value of a finite number.\<close>

fun finite_value :: "number \<Rightarrow> rat" where
  "finite_value (Fin q) = q"
| "finite_value x = 0"

definition signed_zero :: "bool \<Rightarrow> number" where
  "signed_zero neg = (if neg then NegZero else Fin 0)"

definition signed_infinity :: "bool \<Rightarrow> number" where
  "signed_infinity neg = (if neg then NegInf else PosInf)"

text \<open>The operator \<^verbatim>\<open>/\<close> on two Numbers (ECMA-262, Number::divide).\<close>

definition js_divide :: "number \<Rightarrow> number \<Rightarrow> number" where
  "js_divide x y =
     (let neg = (negative x \<noteq> negative y)
      in if x = NaN \<or> y = NaN then NaN
         else if is_infinite x then (if is_infinite y then NaN else signed_infinity neg)
         else if is_infinite y then signed_zero neg
         else if is_zero y then (if is_zero x then NaN else signed_infinity neg)
         else if is_zero x then signed_zero neg
         else round_double (finite_value x / finite_value y))"

subsection \<open>Decimal digits\<close>

definition digit_char :: "nat \<Rightarrow> char" where
  "digit_char d = ''0123456789'' ! d"

fun digits10 :: "nat \<Rightarrow> string" where
  "digits10 n = (if n < 10 then [digit_char n] else digits10 (n div 10) @ [digit_char (n mod 10)])"

definition is_digit :: "char \<Rightarrow> bool" where
  "is_digit c = (48 \<le> (of_char c :: nat) \<and> (of_char c :: nat) \<le> 57)"

definition digit_val :: "char \<Rightarrow> nat" where
  "digit_val c = of_char c - 48"

definition digits_val :: "string \<Rightarrow> nat" where
  "digits_val ds = foldl (\<lambda>a c. 10 * a + digit_val c) 0 ds"

subsection \<open>Number to string\<close>

text \<open>
  \<^verbatim>\<open>Number::toString\<close> (radix 10) prints the shortest decimal \<open>s \<times> 10^(n-k)\<close>, with \<open>k\<close>
  digits, that rounds back to the number.  For \<open>v > 0\<close>, \<open>decimal_exponent v\<close> is the
  \<open>n\<close> with \<open>10^(n-1) \<le> v < 10^n\<close>; \<open>digits_candidate v k\<close> tries the two \<open>k\<close>-digit
  decimals around \<open>v\<close>, and \<open>shortest_digits\<close> takes the least \<open>k\<close> that succeeds
  (17 digits always do for a double).
\<close>

definition decimal_exponent :: "rat \<Rightarrow> int" where
  "decimal_exponent v =
     (if 1 \<le> v then int (length (digits10 (nat \<lfloor>v\<rfloor>)))
      else 1 - int (length (digits10 (nat (\<lceil>1 / v\<rceil> - 1)))))"

definition digits_candidate :: "rat \<Rightarrow> nat \<Rightarrow> (nat \<times> int) option" where
  "digits_candidate v k =
     (let n = decimal_exponent v;
          scale = pow10 (n - int k);
          lo = \<lfloor>v / scale\<rfloor>;
          hi = lo + 1;
          ok_lo = (round_double (of_int lo * scale) = Fin v);
          ok_hi = (round_double (of_int hi * scale) = Fin v);
          pick = (if ok_lo \<and> ok_hi then
                    (let dl = v - of_int lo * scale; dh = of_int hi * scale - v
                     in Some (if dl < dh then lo else if dh < dl then hi
                              else if even lo then lo else hi))
                  else if ok_lo then Some lo
                  else if ok_hi then Some hi
                  else None)
      in case pick of
           None \<Rightarrow> None
         | Some c \<Rightarrow> Some (if c = 10 ^ k then (10 ^ (k - 1), n + 1) else (nat c, n)))"

function shortest_digits :: "rat \<Rightarrow> nat \<Rightarrow> nat \<times> int" where
  "shortest_digits v k =
     (if 17 < k
      then (nat (round_half_even (v / pow10 (decimal_exponent v - int k))), decimal_exponent v)
      else case digits_candidate v k of
             Some r \<Rightarrow> r
           | None \<Rightarrow> shortest_digits v (Suc k))"
  by pat_completeness auto
termination
  by (relation "measure (\<lambda>(v, k). 18 - k)") auto

declare shortest_digits.simps [simp del]
declare digits10.simps [simp del]

definition positive_to_string :: "rat \<Rightarrow> string" where
  "positive_to_string v =
     (let (s, n) = shortest_digits v 1;
          ds = digits10 s;
          k = int (length ds)
      in if - 5 \<le> n \<and> n \<le> 21 then
           (if k \<le> n then ds @ replicate (nat (n - k)) CHR ''0''
            else if 0 < n then take (nat n) ds @ ''.'' @ drop (nat n) ds
            else ''0.'' @ replicate (nat (- n)) CHR ''0'' @ ds)
         else
           (let es = (if n < 0 then ''-'' else ''+'') @ digits10 (nat \<bar>n - 1\<bar>)
            in if k = 1 then ds @ ''e'' @ es
               else take 1 ds @ ''.'' @ drop 1 ds @ ''e'' @ es))"

fun number_to_string :: "number \<Rightarrow> string" where
  "number_to_string NaN = ''NaN''"
| "number_to_string PosInf = ''Infinity''"
| "number_to_string NegInf = ''-Infinity''"
| "number_to_string NegZero = ''0''"
| "number_to_string (Fin q) =
     (if q = 0 then ''0''
      else if q < 0 then ''-'' @ positive_to_string (- q)
      else positive_to_string q)"

subsection \<open>\<^verbatim>\<open>Number.prototype.toFixed\<close>\<close>

text \<open>
  \<open>fixed_digits n f\<close> writes the integer \<open>n\<close> with a point before its last \<open>f\<close>
  digits, padding with zeros so that at least one digit stands before the point.
  \<open>toFixed x f\<close> takes the integer \<open>n\<close> for which \<open>n / 10^f\<close> is nearest to \<open>x\<close> (the
  larger one of two), but only below \<open>10^21\<close>: from there on, and for the values that are
  not finite, it returns what \<open>number_to_string\<close> returns.
\<close>

definition fixed_digits :: "nat \<Rightarrow> nat \<Rightarrow> string" where
  "fixed_digits n f =
     (let m = digits10 n
      in if f = 0 then m
         else let m' = (if length m \<le> f then replicate (f + 1 - length m) CHR ''0'' @ m else m);
                  k = length m'
              in take (k - f) m' @ ''.'' @ drop (k - f) m')"

fun toFixed :: "number \<Rightarrow> nat \<Rightarrow> string" where
  "toFixed (Fin q) f =
     (if q < 0 then ''-'' else []) @
     (if 10 ^ 21 \<le> \<bar>q\<bar> then number_to_string (Fin \<bar>q\<bar>)
      else fixed_digits (nat \<lfloor>\<bar>q\<bar> * 10 ^ f + 1 / 2\<rfloor>) f)"
| "toFixed NegZero f = fixed_digits 0 f"
| "toFixed x f = number_to_string x"

subsection \<open>\<^verbatim>\<open>parseFloat\<close>, \<^verbatim>\<open>parseInt\<close> and the conversion of a string to a number\<close>

text \<open>
  A \<open>string\<close> stands for a script string whose code units are all below 256; of the
  white space and line terminators of ECMA-262 these are TAB, LF, VT, FF, CR, SP and
  NBSP.
\<close>

definition is_whitespace :: "char \<Rightarrow> bool" where
  "is_whitespace c = ((of_char c :: nat) \<in> {9, 10, 11, 12, 13, 32, 160})"

datatype literal = InfinityLiteral | DecimalLiteral rat

text \<open>An optional sign at the head of a string: whether it is a minus, and the rest.\<close>

definition sign_prefix :: "string \<Rightarrow> bool \<times> string" where
  "sign_prefix s =
     (case s of
        [] \<Rightarrow> (False, s)
      | c # r \<Rightarrow> if c = CHR ''-'' then (True, r) else if c = CHR ''+'' then (False, r) else (False, s))"

text \<open>
  The \<^verbatim>\<open>ExponentPart\<close> at the head of a string, if there is one with a digit: its value
  and the rest.  \<^verbatim>\<open>1e\<close> and \<^verbatim>\<open>1e+\<close> have none.
\<close>

definition exponent_part :: "string \<Rightarrow> int \<times> string" where
  "exponent_part s =
     (case s of
        [] \<Rightarrow> (0, s)
      | c # r \<Rightarrow>
          if c = CHR ''e'' \<or> c = CHR ''E'' then
            (let (neg, r') = sign_prefix r; ds = takeWhile is_digit r'
             in if ds = [] then (0, s)
                else ((if neg then - 1 else 1) * int (digits_val ds), dropWhile is_digit r'))
          else (0, s))"

text \<open>
  The longest prefix that is a \<^verbatim>\<open>StrUnsignedDecimalLiteral\<close> (\<^verbatim>\<open>Infinity\<close>, \<^verbatim>\<open>12\<close>, \<^verbatim>\<open>12.\<close>,
  \<^verbatim>\<open>12.5\<close>, \<^verbatim>\<open>.5\<close>, each of the last four with an optional exponent): its exact value and
  the rest of the string.
\<close>

definition unsigned_decimal :: "string \<Rightarrow> (literal \<times> string) option" where
  "unsigned_decimal s =
     (if take 8 s = ''Infinity'' then Some (InfinityLiteral, drop 8 s)
      else let ip = takeWhile is_digit s;
               r1 = dropWhile is_digit s;
               has_dot = (r1 \<noteq> [] \<and> hd r1 = CHR ''.'');
               fp = (if has_dot then takeWhile is_digit (tl r1) else []);
               r2 = (if has_dot then dropWhile is_digit (tl r1) else r1)
           in if ip = [] \<and> fp = [] then None
              else let (ex, r3) = exponent_part r2
                   in Some (DecimalLiteral
                              (of_nat (digits_val (ip @ fp)) * pow10 (ex - int (length fp))), r3))"

definition decimal_literal :: "string \<Rightarrow> (bool \<times> literal \<times> string) option" where
  "decimal_literal s =
     (let (neg, r) = sign_prefix s
      in case unsigned_decimal r of
           None \<Rightarrow> None
         | Some (l, rest) \<Rightarrow> Some (neg, l, rest))"

definition literal_value :: "bool \<Rightarrow> literal \<Rightarrow> number" where
  "literal_value neg l =
     (case l of
        InfinityLiteral \<Rightarrow> signed_infinity neg
      | DecimalLiteral q \<Rightarrow>
          if q = 0 then signed_zero neg else round_double (if neg then - q else q))"

definition parseFloat :: "string \<Rightarrow> number" where
  "parseFloat s =
     (case decimal_literal (dropWhile is_whitespace s) of
        None \<Rightarrow> NaN
      | Some (neg, l, rest) \<Rightarrow> literal_value neg l)"

text \<open>The value of a digit or letter as a digit of a radix up to 36 (36 for any other character).\<close>

definition radix_digit :: "char \<Rightarrow> nat" where
  "radix_digit c =
     (let n = (of_char c :: nat)
      in if 48 \<le> n \<and> n \<le> 57 then n - 48
         else if 97 \<le> n \<and> n \<le> 122 then n - 87
         else if 65 \<le> n \<and> n \<le> 90 then n - 55
         else 36)"

definition radix_val :: "nat \<Rightarrow> string \<Rightarrow> nat" where
  "radix_val R ds = foldl (\<lambda>a c. R * a + radix_digit c) 0 ds"

definition parseInt :: "string \<Rightarrow> int \<Rightarrow> number" where
  "parseInt s radix =
     (let (neg, S) = sign_prefix (dropWhile is_whitespace s);
          hex = ((radix = 0 \<or> radix = 16) \<and> (take 2 S = ''0x'' \<or> take 2 S = ''0X''));
          R = (if hex then 16 else if radix = 0 then 10 else nat radix);
          Z = takeWhile (\<lambda>c. radix_digit c < R) (if hex then drop 2 S else S)
      in if radix \<noteq> 0 \<and> (radix < 2 \<or> 36 < radix) then NaN
         else if Z = [] then NaN
         else if radix_val R Z = 0 then signed_zero neg
         else round_double ((if neg then - 1 else 1) * of_nat (radix_val R Z)))"

text \<open>
  \<^verbatim>\<open>StringToNumber\<close>: the whole string, white space at both ends apart, must be a
  numeric literal; the empty string is \<open>+0\<close>.
\<close>

definition trim :: "string \<Rightarrow> string" where
  "trim s = rev (dropWhile is_whitespace (rev (dropWhile is_whitespace s)))"

definition non_decimal_radix :: "string \<Rightarrow> nat option" where
  "non_decimal_radix s =
     (let p = take 2 s
      in if p = ''0x'' \<or> p = ''0X'' then Some 16
         else if p = ''0o'' \<or> p = ''0O'' then Some 8
         else if p = ''0b'' \<or> p = ''0B'' then Some 2
         else None)"

definition string_to_number :: "string \<Rightarrow> number" where
  "string_to_number s =
     (let t = trim s
      in if t = [] then Fin 0
         else case non_decimal_radix t of
                Some R \<Rightarrow>
                  (let ds = drop 2 t
                   in if ds \<noteq> [] \<and> list_all (\<lambda>c. radix_digit c < R) ds
                      then round_double (of_nat (radix_val R ds))
                      else NaN)
              | None \<Rightarrow>
                  (case decimal_literal t of
                     Some (neg, l, []) \<Rightarrow> literal_value neg l
                   | _ \<Rightarrow> NaN))"

section \<open>The language layer: values, errors, conversions\<close>

text \<open>
  The values the script handles come from \<^verbatim>\<open>JSON.parse\<close> or are built from numbers and
  strings, so a value is one of the JSON shapes or \<^verbatim>\<open>undefined\<close>.  An object is the list
  of its own properties, in order, each key once.
\<close>

datatype jsval =
    Undefined
  | Null
  | VBool bool
  | VNum number
  | VStr string
  | VArr "jsval list"
  | VObj "(string \<times> jsval) list"

text \<open>
  What the engine itself can raise in this script, each a \<^verbatim>\<open>TypeError\<close>: reading a
  property of \<^verbatim>\<open>undefined\<close> or \<^verbatim>\<open>null\<close>, calling what is not a function, and converting
  an object that has no primitive value.  \<open>Error m\<close> is any other error object, of
  whatever class, with the message \<open>m\<close>: the one the script throws itself, and the
  rejections of \<^verbatim>\<open>fetch\<close>, \<^verbatim>\<open>text()\<close> and \<^verbatim>\<open>json()\<close>.
\<close>

datatype fault =
    ReadOfNullish jsval string
  | NotAFunction string
  | NotPrimitive

datatype js_error = Error string | TypeError fault

text \<open>The wording of the engine's own errors differs between engines: a parameter.\<close>

fun message :: "(fault \<Rightarrow> string) \<Rightarrow> js_error \<Rightarrow> string" where
  "message wording (Error m) = m"
| "message wording (TypeError f) = wording f"

text \<open>
  Reading a data property \<^verbatim>\<open>v.name\<close>, for the names the script reads (none of them is a
  property of a built-in prototype, an index or \<^verbatim>\<open>length\<close>).
\<close>

fun get_prop :: "jsval \<Rightarrow> string \<Rightarrow> js_error + jsval" where
  "get_prop Undefined name = Inl (TypeError (ReadOfNullish Undefined name))"
| "get_prop Null name = Inl (TypeError (ReadOfNullish Null name))"
| "get_prop (VObj kvs) name = Inr (case map_of kvs name of None \<Rightarrow> Undefined | Some v \<Rightarrow> v)"
| "get_prop v name = Inr Undefined"

definition join_with :: "string \<Rightarrow> string list \<Rightarrow> string" where
  "join_with sep ss = (case ss of [] \<Rightarrow> [] | s # r \<Rightarrow> s @ concat (map (\<lambda>t. sep @ t) r))"

text \<open>
  \<^verbatim>\<open>ToString\<close>, as a template literal applies it.  An array joins its elements with
  commas, \<^verbatim>\<open>undefined\<close> and \<^verbatim>\<open>null\<close> as empty strings.  An object parsed from JSON
  inherits \<^verbatim>\<open>Object.prototype.toString\<close>, unless it has an own property \<^verbatim>\<open>toString\<close>:
  that one is not callable, \<^verbatim>\<open>valueOf\<close> gives no primitive either, and the conversion
  throws.
\<close>

fun to_string :: "jsval \<Rightarrow> js_error + string"
  and element_strings :: "jsval list \<Rightarrow> js_error + string list" where
  "to_string Undefined = Inr ''undefined''"
| "to_string Null = Inr ''null''"
| "to_string (VBool b) = Inr (if b then ''true'' else ''false'')"
| "to_string (VNum n) = Inr (number_to_string n)"
| "to_string (VStr s) = Inr s"
| "to_string (VArr xs) =
     (case element_strings xs of Inl e \<Rightarrow> Inl e | Inr ss \<Rightarrow> Inr (join_with '','' ss))"
| "to_string (VObj kvs) =
     (if ''toString'' \<in> fst ` set kvs then Inl (TypeError NotPrimitive)
      else Inr ''[object Object]'')"
| "element_strings [] = Inr []"
| "element_strings (x # xs) =
     (case (if x = Undefined \<or> x = Null then Inr [] else to_string x) of
        Inl e \<Rightarrow> Inl e
      | Inr s \<Rightarrow> (case element_strings xs of Inl e \<Rightarrow> Inl e | Inr ss \<Rightarrow> Inr (s # ss)))"

text \<open>
  \<^verbatim>\<open>ToNumber\<close>.  An array or object is first converted to a primitive: \<^verbatim>\<open>valueOf\<close> gives
  none, so it is the string \<open>to_string\<close> gives, or its error.
\<close>

fun to_number :: "jsval \<Rightarrow> js_error + number" where
  "to_number Undefined = Inr NaN"
| "to_number Null = Inr (Fin 0)"
| "to_number (VBool b) = Inr (if b then Fin 1 else Fin 0)"
| "to_number (VNum n) = Inr n"
| "to_number (VStr s) = Inr (string_to_number s)"
| "to_number v = (case to_string v of Inl e \<Rightarrow> Inl e | Inr s \<Rightarrow> Inr (string_to_number s))"

text \<open>The expression \<^verbatim>\<open>p / d\<close> for a value \<open>p\<close> and a number \<open>d\<close>.\<close>

definition divide_by :: "jsval \<Rightarrow> number \<Rightarrow> js_error + number" where
  "divide_by p d = (case to_number p of Inl e \<Rightarrow> Inl e | Inr x \<Rightarrow> Inr (js_divide x d))"

text \<open>The call \<^verbatim>\<open>v.toFixed(f)\<close>: only a number has the method.\<close>

fun call_toFixed :: "jsval \<Rightarrow> nat \<Rightarrow> js_error + string" where
  "call_toFixed (VNum n) f = Inr (toFixed n f)"
| "call_toFixed Undefined f = Inl (TypeError (ReadOfNullish Undefined ''toFixed''))"
| "call_toFixed Null f = Inl (TypeError (ReadOfNullish Null ''toFixed''))"
| "call_toFixed v f = Inl (TypeError (NotAFunction ''toFixed''))"

text \<open>
  The call \<^verbatim>\<open>v.map(callback)\<close>: only an array has the method; it applies the callback to
  the elements in order and stops at the first that throws.
\<close>

fun map_elements :: "('a \<Rightarrow> js_error + 'b) \<Rightarrow> 'a list \<Rightarrow> js_error + 'b list" where
  "map_elements f [] = Inr []"
| "map_elements f (x # xs) =
     (case f x of
        Inl e \<Rightarrow> Inl e
      | Inr y \<Rightarrow> (case map_elements f xs of Inl e \<Rightarrow> Inl e | Inr ys \<Rightarrow> Inr (y # ys)))"

fun call_map :: "jsval \<Rightarrow> (jsval \<Rightarrow> js_error + 'b) \<Rightarrow> js_error + 'b list" where
  "call_map (VArr xs) callback = map_elements callback xs"
| "call_map Undefined callback = Inl (TypeError (ReadOfNullish Undefined ''map''))"
| "call_map Null callback = Inl (TypeError (ReadOfNullish Null ''map''))"
| "call_map v callback = Inl (TypeError (NotAFunction ''map''))"

subsection \<open>\<^verbatim>\<open>JSON.stringify\<close>\<close>

definition hex_digit :: "nat \<Rightarrow> char" where
  "hex_digit d = ''0123456789abcdef'' ! d"

text \<open>\<^verbatim>\<open>QuoteJSONString\<close>, one code unit at a time.\<close>

definition quote_char :: "char \<Rightarrow> string" where
  "quote_char c =
     (let n = (of_char c :: nat)
      in if n = 8 then [CHR 0x5C, CHR ''b'']
         else if n = 9 then [CHR 0x5C, CHR ''t'']
         else if n = 10 then [CHR 0x5C, CHR ''n'']
         else if n = 12 then [CHR 0x5C, CHR ''f'']
         else if n = 13 then [CHR 0x5C, CHR ''r'']
         else if n = 34 then [CHR 0x5C, CHR 0x22]
         else if n = 92 then [CHR 0x5C, CHR 0x5C]
         else if n < 32 then [CHR 0x5C, CHR ''u'', CHR ''0'', CHR ''0'', hex_digit (n div 16), hex_digit (n mod 16)]
         else [c])"

definition quote :: "string \<Rightarrow> string" where
  "quote s = [CHR 0x22] @ concat (map quote_char s) @ [CHR 0x22]"

text \<open>
  \<^verbatim>\<open>JSON.stringify\<close> without a replacer or indentation; \<open>None\<close> is the result
  \<^verbatim>\<open>undefined\<close>.  A number that is not finite is written \<^verbatim>\<open>null\<close>; a property whose value
  is \<^verbatim>\<open>undefined\<close> is left out, and an array element that is \<^verbatim>\<open>undefined\<close> is written
  \<^verbatim>\<open>null\<close>.
\<close>

fun JSON_stringify :: "jsval \<Rightarrow> string option"
  and stringify_elements :: "jsval list \<Rightarrow> string list"
  and stringify_members :: "(string \<times> jsval) list \<Rightarrow> string list" where
  "JSON_stringify Undefined = None"
| "JSON_stringify Null = Some ''null''"
| "JSON_stringify (VBool b) = Some (if b then ''true'' else ''false'')"
| "JSON_stringify (VNum n) =
     Some (if n = NaN \<or> n = PosInf \<or> n = NegInf then ''null'' else number_to_string n)"
| "JSON_stringify (VStr s) = Some (quote s)"
| "JSON_stringify (VArr xs) = Some (''['' @ join_with '','' (stringify_elements xs) @ '']'')"
| "JSON_stringify (VObj kvs) = Some (''{'' @ join_with '','' (stringify_members kvs) @ ''}'')"
| "stringify_elements [] = []"
| "stringify_elements (x # xs) =
     (case JSON_stringify x of None \<Rightarrow> ''null'' | Some s \<Rightarrow> s) # stringify_elements xs"
| "stringify_members [] = []"
| "stringify_members ((k, v) # kvs) =
     (case JSON_stringify v of
        None \<Rightarrow> stringify_members kvs
      | Some s \<Rightarrow> (quote k @ '':'' @ s) # stringify_members kvs)"

section \<open>The page, the network and the chart library\<close>

text \<open>
  Of an element the script uses its class list, its text content and, for a form
  control, its value.  The document is a function from identifiers to elements: the
  script takes for granted that every identifier it looks up is there, so
  \<^verbatim>\<open>document.getElementById\<close> is total here, and elements under different identifiers
  are different elements.
\<close>

record element =
  classList :: "string list"
  textContent :: string
  field_value :: string

definition classList_add :: "string \<Rightarrow> element \<Rightarrow> element" where
  "classList_add c e =
     e\<lparr>classList := (if c \<in> set (classList e) then classList e else classList e @ [c])\<rparr>"

definition classList_remove :: "string \<Rightarrow> element \<Rightarrow> element" where
  "classList_remove c e = e\<lparr>classList := removeAll c (classList e)\<rparr>"

definition set_textContent :: "string \<Rightarrow> element \<Rightarrow> element" where
  "set_textContent s e = e\<lparr>textContent := s\<rparr>"

text \<open>An element is on display unless it carries the class \<^verbatim>\<open>hidden\<close>.\<close>

definition visible :: "element \<Rightarrow> bool" where
  "visible e = (''hidden'' \<notin> set (classList e))"

record request =
  url :: string
  http_method :: string
  headers :: "(string \<times> string) list"
  body :: "string option"

text \<open>
  A response: its \<^verbatim>\<open>ok\<close> flag, and how the promises of \<^verbatim>\<open>text()\<close> and \<^verbatim>\<open>json()\<close>
  settle (\<open>Inl\<close> is a rejection; for \<^verbatim>\<open>json()\<close> that is what a body that is not JSON
  gives).
\<close>

record response =
  ok :: bool
  body_text :: "js_error + string"
  body_json :: "js_error + jsval"

datatype handler = Predict | Curve

text \<open>
  A call of \<^verbatim>\<open>fetch\<close>: the request, the handler that made it, and whether that handler
  has been resumed for the last time, so that its run is complete.
\<close>

record call =
  request :: request
  handler :: handler
  settled :: bool

text \<open>
  The configuration object handed to \<^verbatim>\<open>new Chart\<close>, field by field, and what happens to
  chart instances, in order.  An instance is known by its serial number.
\<close>

record chart_config =
  chart_type :: string
  chart_labels :: "string list"
  dataset_label :: string
  chart_data :: "number list"
  fill :: bool
  tension :: number
  responsive :: bool
  interaction_mode :: string
  intersect :: bool
  x_title_display :: bool
  x_title_text :: jsval
  y_title_display :: bool
  y_title_text :: string

datatype chart_event = Constructed nat chart_config | Destroyed nat

text \<open>
  The state: the document, the script's variable \<^verbatim>\<open>priceChart\<close> (\<open>None\<close> is \<^verbatim>\<open>null\<close>),
  the chart library's history, the calls of \<^verbatim>\<open>fetch\<close> so far, whether the submit
  event's default action has been prevented, and the engine's wording of its errors.
\<close>

record world =
  document :: "string \<Rightarrow> element"
  priceChart :: "nat option"
  charts_created :: nat
  chart_log :: "chart_event list"
  calls :: "call list"
  defaultPrevented :: bool
  wording :: "fault \<Rightarrow> string"

definition update_element :: "string \<Rightarrow> (element \<Rightarrow> element) \<Rightarrow> world \<Rightarrow> world" where
  "update_element ident f w = w\<lparr>document := (document w)(ident := f (document w ident))\<rparr>"

text \<open>The constants bound at the top of the script.\<close>

definition resultBox :: "world \<Rightarrow> element" where
  "resultBox w = document w ''result''"

definition predictedPrice :: "world \<Rightarrow> element" where
  "predictedPrice w = document w ''predicted-price''"

definition errorBox :: "world \<Rightarrow> element" where
  "errorBox w = document w ''error''"

definition featureSelect :: "world \<Rightarrow> element" where
  "featureSelect w = document w ''feature_name''"

definition fetch :: "handler \<Rightarrow> request \<Rightarrow> world \<Rightarrow> world" where
  "fetch h r w = w\<lparr>calls := calls w @ [\<lparr>request = r, handler = h, settled = False\<rparr>]\<rparr>"

text \<open>
  The instances alive after a history of the chart library.  The library is taken at
  its word: \<^verbatim>\<open>destroy\<close> and \<^verbatim>\<open>new Chart\<close> do what they say and do not throw.
\<close>

fun apply_chart_event :: "nat set \<Rightarrow> chart_event \<Rightarrow> nat set" where
  "apply_chart_event S (Constructed c cfg) = insert c S"
| "apply_chart_event S (Destroyed c) = S - {c}"

definition live :: "chart_event list \<Rightarrow> nat set" where
  "live es = foldl apply_chart_event {} es"

definition chart_destroy :: "nat \<Rightarrow> world \<Rightarrow> world" where
  "chart_destroy c w = w\<lparr>chart_log := chart_log w @ [Destroyed c]\<rparr>"

definition new_Chart :: "chart_config \<Rightarrow> world \<Rightarrow> nat \<times> world" where
  "new_Chart cfg w =
     (charts_created w,
      w\<lparr>chart_log := chart_log w @ [Constructed (charts_created w) cfg],
        charts_created := Suc (charts_created w)\<rparr>)"

section \<open>The script\<close>

subsection \<open>\<^verbatim>\<open>getBaseInput\<close>\<close>

definition getBaseInput :: "world \<Rightarrow> jsval" where
  "getBaseInput w =
     VObj [(''med_inc'', VNum (parseFloat (field_value (document w ''med_inc'')))),
           (''house_age'', VNum (parseFloat (field_value (document w ''house_age'')))),
           (''ave_rooms'', VNum (parseFloat (field_value (document w ''ave_rooms'')))),
           (''ave_bedrooms'', VNum (parseFloat (field_value (document w ''ave_bedrooms'')))),
           (''population'', VNum (parseFloat (field_value (document w ''population'')))),
           (''ave_occup'', VNum (parseFloat (field_value (document w ''ave_occup'')))),
           (''latitude'', VNum (parseFloat (field_value (document w ''latitude'')))),
           (''longitude'', VNum (parseFloat (field_value (document w ''longitude''))))]"

subsection \<open>The handlers\<close>

text \<open>
  A handler is an \<^verbatim>\<open>async\<close> function, and it awaits twice: the promise of \<^verbatim>\<open>fetch\<close>, and
  then, when that gave a response, the promise of \<^verbatim>\<open>text()\<close> or \<^verbatim>\<open>json()\<close>.  So a run of a
  handler has up to three stretches, other handlers running between them:
  \<^item> from the event to the call of \<^verbatim>\<open>fetch\<close> (\<open>form_submit\<close>, \<open>btnCurve_click\<close>);
  \<^item> when \<^verbatim>\<open>fetch\<close> is fulfilled, from there to the second await: the handler looks at
    \<^verbatim>\<open>response.ok\<close> and starts reading the body, and changes nothing;
  \<^item> from its last resumption to its end (\<open>form_submit_resume\<close>,
    \<open>btnCurve_click_resume\<close>): the \<^verbatim>\<open>catch\<close> block when \<^verbatim>\<open>fetch\<close> was rejected, and
    otherwise what follows the reading of the body.
  The last stretch is given how the awaits have settled: the error of \<^verbatim>\<open>fetch\<close>, or the
  response, which carries the outcome of reading its body.  It runs in the state it is
  resumed in, whatever has happened since the handler started.

  A \<^verbatim>\<open>try\<close> block ends normally or by a throw, and either way in a state: what was done
  before a throw stays done.
\<close>

datatype 'a completion = Normal 'a | Throw js_error 'a

text \<open>The \<^verbatim>\<open>catch\<close> block, the same in both handlers.\<close>

definition catch_block :: "js_error \<Rightarrow> world \<Rightarrow> world" where
  "catch_block err w =
     update_element ''error'' (classList_remove ''hidden'')
       (update_element ''error'' (set_textContent (message (wording w) err)) w)"

definition form_submit :: "world \<Rightarrow> world" where
  "form_submit w =
     (let w1 = w\<lparr>defaultPrevented := True\<rparr>;
          w2 = update_element ''error'' (classList_add ''hidden'') w1;
          w3 = update_element ''result'' (classList_add ''hidden'') w2;
          baseInput = getBaseInput w3
      in fetch Predict
           \<lparr>url = ''/predict_price'', http_method = ''POST'',
            headers = [(''Content-Type'', ''application/json'')],
            body = JSON_stringify baseInput\<rparr> w3)"

definition form_submit_try :: "js_error + response \<Rightarrow> world \<Rightarrow> world completion" where
  "form_submit_try settlement w =
     (case settlement of
        Inl err \<Rightarrow> Throw err w
      | Inr response \<Rightarrow>
          if \<not> ok response then
            (case body_text response of
               Inl err \<Rightarrow> Throw err w
             | Inr text \<Rightarrow>
                 Throw (Error (if text = [] then ''Error en la llamada a /predict_price'' else text)) w)
          else
            (case body_json response of
               Inl err \<Rightarrow> Throw err w
             | Inr json \<Rightarrow>
                 (case get_prop json ''predicted_price_formatted'' of
                    Inl err \<Rightarrow> Throw err w
                  | Inr v \<Rightarrow>
                      (case to_string v of
                         Inl err \<Rightarrow> Throw err w
                       | Inr s \<Rightarrow>
                           Normal
                             (update_element ''result'' (classList_remove ''hidden'')
                               (update_element ''predicted-price''
                                 (set_textContent (''Precio estimado: '' @ s)) w))))))"

definition form_submit_resume :: "js_error + response \<Rightarrow> world \<Rightarrow> world" where
  "form_submit_resume settlement w =
     (case form_submit_try settlement w of
        Normal w' \<Rightarrow> w'
      | Throw err w' \<Rightarrow> catch_block err w')"

definition btnCurve_click :: "world \<Rightarrow> world" where
  "btnCurve_click w =
     (let w1 = update_element ''error'' (classList_add ''hidden'') w;
          baseInput = getBaseInput w1;
          minValue = parseFloat (field_value (document w1 ''min_value''));
          maxValue = parseFloat (field_value (document w1 ''max_value''));
          numPoints = parseInt (field_value (document w1 ''num_points'')) 10;
          payload = VObj [(''feature_name'', VStr (field_value (featureSelect w1))),
                          (''base'', baseInput),
                          (''min_value'', VNum minValue),
                          (''max_value'', VNum maxValue),
                          (''num_points'', VNum numPoints)]
      in fetch Curve
           \<lparr>url = ''/feature_curve'', http_method = ''POST'',
            headers = [(''Content-Type'', ''application/json'')],
            body = JSON_stringify payload\<rparr> w1)"

subsection \<open>\<^verbatim>\<open>renderChart\<close>\<close>

text \<open>
  The labels and the data are computed first, then the chart in \<^verbatim>\<open>priceChart\<close> is
  destroyed, then the configuration object is evaluated (its template literal converts
  \<^verbatim>\<open>curveData.feature_name\<close> to a string), then the new chart is made and assigned.
\<close>

definition renderChart :: "jsval \<Rightarrow> world \<Rightarrow> world completion" where
  "renderChart curveData w =
     (case (case get_prop curveData ''x_values'' of
              Inl err \<Rightarrow> Inl err
            | Inr xs \<Rightarrow> call_map xs (\<lambda>v. call_toFixed v 2)) of
        Inl err \<Rightarrow> Throw err w
      | Inr labels \<Rightarrow>
     (case (case get_prop curveData ''prices'' of
              Inl err \<Rightarrow> Inl err
            | Inr ps \<Rightarrow> call_map ps (\<lambda>p. divide_by p (Fin 1000))) of
        Inl err \<Rightarrow> Throw err w
      | Inr data \<Rightarrow>
     (let w1 = (case priceChart w of None \<Rightarrow> w | Some c \<Rightarrow> chart_destroy c w)
      in case get_prop curveData ''feature_name'' of
           Inl err \<Rightarrow> Throw err w1
         | Inr name \<Rightarrow>
        (case to_string name of
           Inl err \<Rightarrow> Throw err w1
         | Inr name_text \<Rightarrow>
             (let (chart, w2) =
                    new_Chart
                      \<lparr>chart_type = ''line'',
                       chart_labels = labels,
                       dataset_label = ''Precio (miles de $) vs '' @ name_text,
                       chart_data = data,
                       fill = False,
                       tension = round_double (2 / 10),
                       responsive = True,
                       interaction_mode = ''index'',
                       intersect = False,
                       x_title_display = True,
                       x_title_text = name,
                       y_title_display = True,
                       y_title_text = ''Precio estimado (miles de $)''\<rparr> w1
              in Normal (w2\<lparr>priceChart := Some chart\<rparr>))))))"

definition btnCurve_click_try :: "js_error + response \<Rightarrow> world \<Rightarrow> world completion" where
  "btnCurve_click_try settlement w =
     (case settlement of
        Inl err \<Rightarrow> Throw err w
      | Inr response \<Rightarrow>
          if \<not> ok response then
            (case body_text response of
               Inl err \<Rightarrow> Throw err w
             | Inr text \<Rightarrow>
                 Throw (Error (if text = [] then ''Error en la llamada a /feature_curve'' else text)) w)
          else
            (case body_json response of
               Inl err \<Rightarrow> Throw err w
             | Inr json \<Rightarrow> renderChart json w))"

definition btnCurve_click_resume :: "js_error + response \<Rightarrow> world \<Rightarrow> world" where
  "btnCurve_click_resume settlement w =
     (case btnCurve_click_try settlement w of
        Normal w' \<Rightarrow> w'
      | Throw err w' \<Rightarrow> catch_block err w')"

subsection \<open>The event loop\<close>

text \<open>
  What can happen, one thing at a time:
  \<^item> the user submits the form, clicks the curve button or edits a control;
  \<^item> \<open>Fulfil i\<close>: the \<^verbatim>\<open>fetch\<close> of call number \<open>i\<close> is fulfilled with a response, and its
    handler runs from the first await to the second;
  \<^item> \<open>Settle i s\<close>: the handler that made call number \<open>i\<close> is resumed for the last time,
    once, and runs to its end.  With \<open>s = Inl e\<close> its \<^verbatim>\<open>fetch\<close> was rejected with \<open>e\<close>; with
    \<open>s = Inr r\<close> the reading of the body of its response \<open>r\<close> has settled.
  A run of a handler is complete with its \<open>Settle\<close>, and with nothing before.  As \<open>Fulfil i\<close>
  changes nothing, a sequence of events that leaves it out before \<open>Settle i (Inr r)\<close> stands
  for the one where it comes just before.
\<close>

datatype event =
    SubmitForm
  | ClickCurve
  | Fulfil nat
  | Settle nat "js_error + response"
  | UserInput string string

definition resume :: "handler \<Rightarrow> js_error + response \<Rightarrow> world \<Rightarrow> world" where
  "resume h settlement w =
     (case h of
        Predict \<Rightarrow> form_submit_resume settlement w
      | Curve \<Rightarrow> btnCurve_click_resume settlement w)"

fun step :: "world \<Rightarrow> event \<Rightarrow> world" where
  "step w SubmitForm = form_submit w"
| "step w ClickCurve = btnCurve_click w"
| "step w (Fulfil i) = w"
| "step w (Settle i settlement) =
     (if i < length (calls w) \<and> \<not> settled (calls w ! i)
      then resume (handler (calls w ! i)) settlement
             (w\<lparr>calls := (calls w)[i := (calls w ! i)\<lparr>settled := True\<rparr>]\<rparr>)
      else w)"
| "step w (UserInput ident v) = update_element ident (\<lambda>e. e\<lparr>field_value := v\<rparr>) w"

definition run :: "world \<Rightarrow> event list \<Rightarrow> world" where
  "run w es = foldl step w es"

text \<open>The page as the script finds it when it is loaded: \<^verbatim>\<open>let priceChart = null\<close>.\<close>

definition loaded :: "(string \<Rightarrow> element) \<Rightarrow> (fault \<Rightarrow> string) \<Rightarrow> world" where
  "loaded doc wd =
     \<lparr>document = doc, priceChart = None, charts_created = 0, chart_log = [], calls = [],
      defaultPrevented = False, wording = wd\<rparr>"

text \<open>
  A whole run of the submit handler with nothing in between: from the event to its
  end.
\<close>

definition form_submit_alone :: "js_error + response \<Rightarrow> world \<Rightarrow> world" where
  "form_submit_alone settlement w =
     step (step w SubmitForm) (Settle (length (calls w)) settlement)"

text \<open>
  The events that complete a run of a handler, and a run of the submit handler from
  the event to its end, with the events that happen in between.
\<close>

fun is_completion :: "event \<Rightarrow> bool" where
  "is_completion (Settle i settlement) = True"
| "is_completion ev = False"

definition form_submit_run :: "event list \<Rightarrow> js_error + response \<Rightarrow> world \<Rightarrow> world" where
  "form_submit_run between settlement w =
     step (run (step w SubmitForm) between) (Settle (length (calls w)) settlement)"

section \<open>Sample pages and responses\<close>

text \<open>
  A page whose controls are all empty and on which nothing is hidden, an engine that
  words every error of its own as \<^verbatim>\<open>TypeError\<close>, and the state after loading the script
  on that page.
\<close>

definition blank :: element where
  "blank = \<lparr>classList = [], textContent = [], field_value = []\<rparr>"

definition empty_page :: "string \<Rightarrow> element" where
  "empty_page ident = blank"

definition plain_wording :: "fault \<Rightarrow> string" where
  "plain_wording f = ''TypeError''"

definition fresh :: world where
  "fresh = loaded empty_page plain_wording"

text \<open>A response with a success status and the given parsed body.\<close>

definition json_response :: "jsval \<Rightarrow> response" where
  "json_response j =
     \<lparr>ok = True,
      body_text = Inr (case JSON_stringify j of None \<Rightarrow> [] | Some s \<Rightarrow> s),
      body_json = Inr j\<rparr>"

text \<open>A response with an error status and the given text, which is not JSON.\<close>

definition error_response :: "string \<Rightarrow> response" where
  "error_response t = \<lparr>ok = False, body_text = Inr t, body_json = Inl (Error ''Unexpected token'')\<rparr>"

text \<open>
  The curve response of the specification's example, and one whose only abscissa is
  \<open>10^21\<close>.
\<close>

definition sample_curve :: jsval where
  "sample_curve =
     VObj [(''feature_name'', VStr ''med_inc''),
           (''x_values'', VArr [VNum (Fin 1), VNum (Fin 2)]),
           (''prices'', VArr [VNum (Fin 100000), VNum (Fin 200000)])]"

definition huge_curve :: jsval where
  "huge_curve =
     VObj [(''feature_name'', VStr ''population''),
           (''x_values'', VArr [VNum (Fin (10 ^ 21))]),
           (''prices'', VArr [VNum (Fin 100000)])]"

text \<open>The prediction response of the specification's example.\<close>

definition sample_price :: jsval where
  "sample_price = VObj [(''predicted_price_formatted'', VStr ''$250,000'')]"

text \<open>
  A page with every control filled in, and the same page with the income left empty,
  each as the script finds it when loaded.
\<close>

definition input :: "string \<Rightarrow> element" where
  "input s = blank\<lparr>field_value := s\<rparr>"

definition sample_page :: "string \<Rightarrow> element" where
  "sample_page =
     empty_page
       (''med_inc'' := input ''8.5'',
        ''house_age'' := input ''41'',
        ''ave_rooms'' := input ''7'',
        ''ave_bedrooms'' := input ''1'',
        ''population'' := input ''322'',
        ''ave_occup'' := input ''2.5'',
        ''latitude'' := input ''37.75'',
        ''longitude'' := input ''-122.25'',
        ''feature_name'' := input ''med_inc'',
        ''min_value'' := input ''1'',
        ''max_value'' := input ''10'',
        ''num_points'' := input ''20'')"

definition sample :: world where
  "sample = loaded sample_page plain_wording"

definition sample_without_income :: world where
  "sample_without_income = loaded (sample_page(''med_inc'' := input [])) plain_wording"

text \<open>
  The chart the renderer configures for the example response; the state after one
  click on the curve button answered with that response; that click done twice; a
  curve response without its sequences; and one whose \<^verbatim>\<open>feature_name\<close> is an object with
  an own property \<^verbatim>\<open>toString\<close>.
\<close>

definition sample_chart :: chart_config where
  "sample_chart =
     \<lparr>chart_type = ''line'',
      chart_labels = [''1.00'', ''2.00''],
      dataset_label = ''Precio (miles de $) vs med_inc'',
      chart_data = [Fin 100, Fin 200],
      fill = False,
      tension = round_double (2 / 10),
      responsive = True,
      interaction_mode = ''index'',
      intersect = False,
      x_title_display = True,
      x_title_text = VStr ''med_inc'',
      y_title_display = True,
      y_title_text = ''Precio estimado (miles de $)''\<rparr>"

definition charted :: world where
  "charted = run fresh [ClickCurve, Settle 0 (Inr (json_response sample_curve))]"

definition incomplete_curve :: jsval where
  "incomplete_curve = VObj [(''feature_name'', VStr ''med_inc'')]"

definition unnamed_curve :: jsval where
  "unnamed_curve =
     VObj [(''feature_name'', VObj [(''toString'', VNum (Fin 1))]),
           (''x_values'', VArr []),
           (''prices'', VArr [])]"

definition two_clicks :: "event list" where
  "two_clicks =
     [ClickCurve, Settle 0 (Inr (json_response sample_curve)),
      ClickCurve, Settle 1 (Inr (json_response sample_curve))]"

text \<open>
  What may happen while a run of a handler is under way without another one being
  completed: the user edits a control, submits again and asks for a curve, and the
  request for the curve is answered.
\<close>

definition busy :: "event list" where
  "busy = [UserInput ''med_inc'' ''3'', SubmitForm, ClickCurve, Fulfil 2]"

section \<open>Words of the specification\<close>

text \<open>The message each handler falls back on when an error response has an empty body.\<close>

definition generic_message :: "handler \<Rightarrow> string" where
  "generic_message h =
     (case h of
        Predict \<Rightarrow> ''Error en la llamada a /predict_price''
      | Curve \<Rightarrow> ''Error en la llamada a /feature_curve'')"

text \<open>
  A number written with exactly two decimal places: the sign, the digits of the whole
  part, a point and two digits, for the hundredth nearest to the number (the upper one
  of two).
\<close>

definition two_decimal_places :: "rat \<Rightarrow> string" where
  "two_decimal_places q =
     (let n = nat \<lfloor>\<bar>q\<bar> * 100 + 1 / 2\<rfloor>
      in (if q < 0 then ''-'' else []) @ digits10 (n div 100) @ ''.'' @
         [digit_char (n div 10 mod 10), digit_char (n mod 10)])"

text \<open>
  A number as JSON text, and the JSON text of the two request bodies, the numbers read
  from the page as the script reads them.
\<close>

definition json_number :: "number \<Rightarrow> string" where
  "json_number n = (if n = NaN \<or> n = PosInf \<or> n = NegInf then ''null'' else number_to_string n)"

definition base_json :: "world \<Rightarrow> string" where
  \<open>base_json w =
     ''{"med_inc":'' @ json_number (parseFloat (field_value (document w ''med_inc''))) @
     '',"house_age":'' @ json_number (parseFloat (field_value (document w ''house_age''))) @
     '',"ave_rooms":'' @ json_number (parseFloat (field_value (document w ''ave_rooms''))) @
     '',"ave_bedrooms":'' @ json_number (parseFloat (field_value (document w ''ave_bedrooms''))) @
     '',"population":'' @ json_number (parseFloat (field_value (document w ''population''))) @
     '',"ave_occup":'' @ json_number (parseFloat (field_value (document w ''ave_occup''))) @
     '',"latitude":'' @ json_number (parseFloat (field_value (document w ''latitude''))) @
     '',"longitude":'' @ json_number (parseFloat (field_value (document w ''longitude''))) @
     ''}''\<close>

definition curve_json :: "world \<Rightarrow> string" where
  \<open>curve_json w =
     ''{"feature_name":'' @ quote (field_value (document w ''feature_name'')) @
     '',"base":'' @ base_json w @
     '',"min_value":'' @ json_number (parseFloat (field_value (document w ''min_value''))) @
     '',"max_value":'' @ json_number (parseFloat (field_value (document w ''max_value''))) @
     '',"num_points":'' @ json_number (parseInt (field_value (document w ''num_points'')) 10) @
     ''}''\<close>

text \<open>
  What holds of the charts in every state the page can reach: only the chart in
  \<^verbatim>\<open>priceChart\<close> can be alive, at no moment of the history were two alive, the chart in
  \<^verbatim>\<open>priceChart\<close> is one that has been made, and while \<^verbatim>\<open>priceChart\<close> is \<^verbatim>\<open>null\<close> the
  chart library has not been used.
\<close>

definition chart_invariant :: "world \<Rightarrow> bool" where
  "chart_invariant w =
     (live (chart_log w) \<subseteq> set_option (priceChart w)
      \<and> (\<forall>n. \<exists>c. live (take n (chart_log w)) \<subseteq> {c})
      \<and> (\<forall>c. priceChart w = Some c \<longrightarrow> c < charts_created w)
      \<and> (priceChart w = None \<longrightarrow> chart_log w = []))"

text \<open>
  While the run of the submit handler that made call \<open>i\<close> is under way and no run of a
  handler has been completed since it started: both regions are hidden and the run is
  not complete.
\<close>

definition awaiting_hidden :: "nat \<Rightarrow> world \<Rightarrow> bool" where
  "awaiting_hidden i w =
     (\<not> visible (resultBox w) \<and> \<not> visible (errorBox w)
      \<and> i < length (calls w) \<and> \<not> settled (calls w ! i) \<and> handler (calls w ! i) = Predict)"

section \<open>Basic facts about the page\<close>

lemma document_update_element:
  "document (update_element ident f w) = (document w)(ident := f (document w ident))"
  by (simp add: update_element_def)

lemma update_element_other [simp]:
  "priceChart (update_element ident f w) = priceChart w"
  "charts_created (update_element ident f w) = charts_created w"
  "chart_log (update_element ident f w) = chart_log w"
  "calls (update_element ident f w) = calls w"
  "defaultPrevented (update_element ident f w) = defaultPrevented w"
  "wording (update_element ident f w) = wording w"
  by (simp_all add: update_element_def)

lemma visible_classList_remove [simp]: "visible (classList_remove ''hidden'' e)"
  by (simp add: visible_def classList_remove_def)

lemma visible_classList_add [simp]: "\<not> visible (classList_add ''hidden'' e)"
  by (simp add: visible_def classList_add_def)

lemma textContent_classList [simp]:
  "textContent (classList_remove c e) = textContent e"
  "textContent (classList_add c e) = textContent e"
  "textContent (set_textContent s e) = s"
  "classList (set_textContent s e) = classList e"
  by (simp_all add: classList_remove_def classList_add_def set_textContent_def)

lemma visible_set_textContent [simp]: "visible (set_textContent s e) = visible e"
  by (simp add: visible_def)

lemma catch_block_shows:
  "visible (errorBox (catch_block e w))"
  "textContent (errorBox (catch_block e w)) = message (wording w) e"
  "document (catch_block e w) = (document w)(''error'' := errorBox (catch_block e w))"
  "priceChart (catch_block e w) = priceChart w"
  "chart_log (catch_block e w) = chart_log w"
  "charts_created (catch_block e w) = charts_created w"
  "calls (catch_block e w) = calls w"
  by (simp_all add: catch_block_def errorBox_def document_update_element)

lemma catch_block_frame:
  "resultBox (catch_block e w) = resultBox w"
  "predictedPrice (catch_block e w) = predictedPrice w"
  by (simp_all add: catch_block_def resultBox_def predictedPrice_def document_update_element)

lemma fresh_simps [simp]:
  "document fresh = empty_page" "priceChart fresh = None" "charts_created fresh = 0"
  "chart_log fresh = []" "calls fresh = []" "wording fresh = plain_wording"
  by (simp_all add: fresh_def loaded_def)

section \<open>Basic facts about numbers\<close>

text \<open>Rules that let the simplifier compute with rational numerals and bit lengths.\<close>

lemma floor_rat_numeral_div [simp]:
  "\<lfloor>numeral a / numeral b :: rat\<rfloor> = numeral a div numeral b"
  by (metis floor_divide_of_int_eq of_int_numeral)

lemma floor_rat_one_div [simp]: "\<lfloor>1 / numeral b :: rat\<rfloor> = 1 div numeral b"
  by (metis floor_divide_of_int_eq of_int_numeral of_int_1)

lemma ceiling_rat_numeral_div [simp]:
  "\<lceil>numeral a / numeral b :: rat\<rceil> = - (- numeral a div numeral b)"
  by (metis ceiling_def floor_divide_of_int_eq minus_divide_left of_int_minus of_int_numeral)

lemma bitlen_numeral: "bitlen (numeral k) = bitlen (numeral k div 2) + 1"
  by (subst compute_bitlen) simp

lemma bitlen_1: "bitlen 1 = 1"
  by (simp add: compute_bitlen)

declare toFixed.simps [simp del]

lemmas number_eval =
  toFixed.simps round_double_def ilog2_def pow2_def pow10_def round_half_even_def Let_def bitlen_numeral bitlen_1
  js_divide_def is_zero_def is_infinite_def signed_zero_def signed_infinity_def
  digit_char_def digits10.simps is_digit_def digit_val_def digits_val_def
  decimal_exponent_def digits_candidate_def shortest_digits.simps positive_to_string_def
  fixed_digits_def is_whitespace_def sign_prefix_def exponent_part_def unsigned_decimal_def
  decimal_literal_def literal_value_def parseFloat_def radix_digit_def radix_val_def parseInt_def
  trim_def non_decimal_radix_def string_to_number_def

text \<open>
  The rounding, the parser and the printer on well-known values: the double nearest to
  one tenth, and the texts of one tenth and of \<open>10^21\<close>.
\<close>

lemma parseFloat_one_tenth:
  "parseFloat ''0.1'' = Fin (3602879701896397 / 36028797018963968)"
  by (simp add: number_eval)

lemma number_to_string_one_tenth:
  "number_to_string (Fin (3602879701896397 / 36028797018963968)) = ''0.1''"
  by (simp add: number_eval)

lemma number_to_string_sextillion: "number_to_string (Fin (10 ^ 21)) = ''1e+21''"
  by (simp add: number_eval)

lemma digit_char_0 [simp]: "digit_char 0 = CHR ''0''"
  by (simp add: digit_char_def)

lemma digits10_small: "n < 10 \<Longrightarrow> digits10 n = [digit_char n]"
  by (simp add: digits10.simps)

lemma digits10_large: "10 \<le> n \<Longrightarrow> digits10 n = digits10 (n div 10) @ [digit_char (n mod 10)]"
  by (subst digits10.simps) simp

lemma digits10_nonempty [simp]: "digits10 n \<noteq> []"
  by (subst digits10.simps) simp

lemma fixed_digits_two:
  "fixed_digits n 2 = digits10 (n div 100) @ ''.'' @ [digit_char (n div 10 mod 10), digit_char (n mod 10)]"
proof -
  consider "n < 10" | "10 \<le> n" "n < 100" | "100 \<le> n" by linarith
  then show ?thesis
  proof cases
    case 1
    then show ?thesis
      by (simp add: fixed_digits_def digits10_small Let_def numeral_2_eq_2)
  next
    case 2
    then have "n div 10 < 10" by simp
    with 2 show ?thesis
      by (simp add: fixed_digits_def digits10_large digits10_small Let_def)
  next
    case 3
    then have "10 \<le> n div 10" by simp
    moreover have "n div 10 div 10 = n div 100" by (simp add: div_mult2_eq)
    ultimately have "digits10 n = digits10 (n div 100) @ [digit_char (n div 10 mod 10), digit_char (n mod 10)]"
      using 3 by (simp add: digits10_large)
    then show ?thesis
      by (simp add: fixed_digits_def Let_def)
  qed
qed

lemma toFixed_two_decimal_places:
  "\<bar>q\<bar> < 10 ^ 21 \<Longrightarrow> toFixed (Fin q) 2 = two_decimal_places q"
  by (simp add: toFixed.simps two_decimal_places_def fixed_digits_two Let_def)

lemma toFixed_negative_zero: "toFixed NegZero 2 = two_decimal_places 0"
  by (simp add: toFixed.simps two_decimal_places_def fixed_digits_two)

lemma toFixed_large: "10 ^ 21 \<le> \<bar>q\<bar> \<Longrightarrow> toFixed (Fin q) 2 = number_to_string (Fin q)"
  by (cases "q < 0") (auto simp: toFixed.simps abs_if)

section \<open>Basic facts about the renderer\<close>

lemma labels_of_numbers:
  "map_elements (\<lambda>v. call_toFixed v f) (map VNum xs) = Inr (map (\<lambda>x. toFixed x f) xs)"
  by (induction xs) simp_all

lemma data_of_numbers:
  "map_elements (\<lambda>p. divide_by p d) (map VNum ps) = Inr (map (\<lambda>p. js_divide p d) ps)"
  by (induction ps) (simp_all add: divide_by_def)

lemma renderChart_missing_field:
  assumes "get_prop j ''x_values'' = Inr Undefined \<or> get_prop j ''prices'' = Inr Undefined"
  shows "\<exists>e. renderChart j w = Throw e w"
  using assms
  by (auto simp: renderChart_def split: sum.splits)

section \<open>Basic facts about the submit handler\<close>

lemma form_submit_try_cases:
  "(\<exists>e. form_submit_try s w = Throw e w)
   \<or> (\<exists>t. form_submit_try s w =
         Normal (update_element ''result'' (classList_remove ''hidden'')
                  (update_element ''predicted-price'' (set_textContent t) w)))"
  by (auto simp: form_submit_try_def split: sum.splits)

lemma form_submit_resume_throw:
  "form_submit_try s w = Throw e w \<Longrightarrow>
     visible (errorBox (form_submit_resume s w))
     \<and> visible (resultBox (form_submit_resume s w)) = visible (resultBox w)"
  by (simp add: form_submit_resume_def catch_block_shows catch_block_frame)

lemma form_submit_resume_normal:
  "form_submit_try s w =
     Normal (update_element ''result'' (classList_remove ''hidden'')
              (update_element ''predicted-price'' (set_textContent t) w)) \<Longrightarrow>
     visible (resultBox (form_submit_resume s w))
     \<and> visible (errorBox (form_submit_resume s w)) = visible (errorBox w)"
  by (simp add: form_submit_resume_def resultBox_def errorBox_def document_update_element)

lemma calls_form_submit_resume: "calls (form_submit_resume s w) = calls w"
  using form_submit_try_cases [of s w]
  by (auto simp: form_submit_resume_def catch_block_def)

lemma form_submit_try_failures:
  "form_submit_try (Inl e) w = Throw e w"
  "\<not> ok r \<Longrightarrow> \<exists>e'. form_submit_try (Inr r) w = Throw e' w"
  "ok r \<Longrightarrow> body_json r = Inl e \<Longrightarrow> form_submit_try (Inr r) w = Throw e w"
  by (simp_all add: form_submit_try_def split: sum.splits)

lemma form_submit_try_success:
  "ok r \<Longrightarrow> body_json r = Inr j \<Longrightarrow> get_prop j ''predicted_price_formatted'' = Inr v \<Longrightarrow>
   to_string v = Inr t \<Longrightarrow>
   form_submit_try (Inr r) w =
     Normal (update_element ''result'' (classList_remove ''hidden'')
              (update_element ''predicted-price'' (set_textContent (''Precio estimado: '' @ t)) w))"
  by (simp add: form_submit_try_def)

section \<open>Basic facts about the requests\<close>

lemma JSON_stringify_number: "JSON_stringify (VNum n) = Some (json_number n)"
  by (simp add: json_number_def)

lemma stringify_base: "JSON_stringify (getBaseInput w) = Some (base_json w)"
  by (simp add: getBaseInput_def base_json_def JSON_stringify_number join_with_def quote_def
      quote_char_def del: JSON_stringify.simps(4))

lemma sample_numbers:
  "json_number (parseFloat ''8.5'') = ''8.5''"
  "json_number (parseFloat ''41'') = ''41''"
  "json_number (parseFloat ''7'') = ''7''"
  "json_number (parseFloat ''1'') = ''1''"
  "json_number (parseFloat ''322'') = ''322''"
  "json_number (parseFloat ''2.5'') = ''2.5''"
  "json_number (parseFloat ''37.75'') = ''37.75''"
  "json_number (parseFloat ''-122.25'') = ''-122.25''"
  "json_number (parseFloat ''10'') = ''10''"
  "json_number (parseInt ''20'' 10) = ''20''"
  "json_number (parseFloat []) = ''null''"
  by (simp_all add: json_number_def number_eval)

lemma base_json_update_error [simp]:
  "base_json (update_element ''error'' f w) = base_json w"
  "base_json (update_element ''result'' f w) = base_json w"
  "base_json (w\<lparr>defaultPrevented := b\<rparr>) = base_json w"
  by (simp_all add: base_json_def document_update_element)

lemma blank_is_not_a_number: "list_all is_whitespace s \<Longrightarrow> parseFloat s = NaN"
proof -
  assume "list_all is_whitespace s"
  then have d: "dropWhile is_whitespace s = []"
    by (simp add: list_all_iff)
  have "decimal_literal [] = None"
    by (simp add: decimal_literal_def sign_prefix_def unsigned_decimal_def)
  then show ?thesis
    unfolding parseFloat_def d by simp
qed

lemma getBaseInput_update_element [simp]:
  "getBaseInput (update_element ''error'' f w) = getBaseInput w"
  "getBaseInput (update_element ''result'' f w) = getBaseInput w"
  "getBaseInput (w\<lparr>defaultPrevented := b\<rparr>) = getBaseInput w"
  by (simp_all add: getBaseInput_def document_update_element)

lemma stringify_payload:
  \<open>JSON_stringify b = Some bs \<Longrightarrow>
   JSON_stringify (VObj [(''feature_name'', VStr f), (''base'', b), (''min_value'', VNum x),
                         (''max_value'', VNum y), (''num_points'', VNum n)]) =
     Some (''{"feature_name":'' @ quote f @ '',"base":'' @ bs @ '',"min_value":'' @ json_number x @
           '',"max_value":'' @ json_number y @ '',"num_points":'' @ json_number n @ ''}'')\<close>
  by (simp add: join_with_def quote_def quote_char_def JSON_stringify_number
      del: JSON_stringify.simps(4))

lemma btnCurve_click_eq:
  "btnCurve_click w =
     (update_element ''error'' (classList_add ''hidden'') w)
       \<lparr>calls := calls w @
          [\<lparr>request = \<lparr>url = ''/feature_curve'', http_method = ''POST'',
                        headers = [(''Content-Type'', ''application/json'')],
                        body = Some (curve_json w)\<rparr>,
            handler = Curve, settled = False\<rparr>]\<rparr>"
  using stringify_payload [OF stringify_base [of w]]
  by (simp add: btnCurve_click_def fetch_def Let_def curve_json_def featureSelect_def
      document_update_element del: JSON_stringify.simps)

lemma form_submit_eq:
  "form_submit w =
     (update_element ''result'' (classList_add ''hidden'')
       (update_element ''error'' (classList_add ''hidden'') w))
       \<lparr>defaultPrevented := True,
        calls := calls w @
          [\<lparr>request = \<lparr>url = ''/predict_price'', http_method = ''POST'',
                        headers = [(''Content-Type'', ''application/json'')],
                        body = Some (base_json w)\<rparr>,
            handler = Predict, settled = False\<rparr>]\<rparr>"
  apply (simp add: form_submit_def fetch_def Let_def stringify_base del: JSON_stringify.simps)
  apply (simp add: update_element_def)
  done

lemma base_json_sample:
  \<open>base_json sample =
     ''{"med_inc":8.5,"house_age":41,"ave_rooms":7,"ave_bedrooms":1,"population":322,"ave_occup":2.5,"latitude":37.75,"longitude":-122.25}''\<close>
  using sample_numbers
  by (simp add: base_json_def sample_def loaded_def sample_page_def input_def)

lemma base_json_sample_without_income:
  \<open>base_json sample_without_income =
     ''{"med_inc":null,"house_age":41,"ave_rooms":7,"ave_bedrooms":1,"population":322,"ave_occup":2.5,"latitude":37.75,"longitude":-122.25}''\<close>
  using sample_numbers
  by (simp add: base_json_def sample_without_income_def loaded_def sample_page_def input_def)

section \<open>Basic facts about charts\<close>

lemma renderChart_sample:
  "renderChart sample_curve w =
     Normal (w\<lparr>chart_log := chart_log w @ (case priceChart w of None \<Rightarrow> [] | Some c \<Rightarrow> [Destroyed c]) @
                      [Constructed (charts_created w) sample_chart],
              charts_created := Suc (charts_created w),
              priceChart := Some (charts_created w)\<rparr>)"
proof -
  have l: "toFixed (Fin 1) 2 = ''1.00''" "toFixed (Fin 2) 2 = ''2.00''"
    by (simp_all add: number_eval)
  have d: "js_divide (Fin 100000) (Fin 1000) = Fin 100" "js_divide (Fin 200000) (Fin 1000) = Fin 200"
    by (simp_all add: number_eval)
  show ?thesis
    using l d
    by (simp add: sample_curve_def sample_chart_def renderChart_def new_Chart_def chart_destroy_def
        divide_by_def split: option.splits)
qed

lemma live_append [simp]: "live (es @ [e]) = apply_chart_event (live es) e"
  by (simp add: live_def)

lemma live_Nil [simp]: "live [] = {}"
  by (simp add: live_def)

lemma charted_simps:
  "priceChart charted = Some 0"
  "chart_log charted = [Constructed 0 sample_chart]"
  "charts_created charted = 1"
  "length (calls charted) = 1"
  "wording charted = plain_wording"
  by (simp_all add: charted_def run_def btnCurve_click_eq resume_def btnCurve_click_resume_def
      btnCurve_click_try_def json_response_def renderChart_sample)

lemma live_charted: "live (chart_log charted) = {0}"
  using live_append [of "[]" "Constructed 0 sample_chart"] by (simp add: charted_simps)

lemma get_prop_defined: "get_prop j a = Inr x \<Longrightarrow> \<exists>y. get_prop j b = Inr y"
  by (cases j) simp_all

lemma renderChart_effect:
  "(\<exists>e. renderChart j w = Throw e w)
   \<or> (\<exists>e c name. priceChart w = Some c \<and> renderChart j w = Throw e (chart_destroy c w)
        \<and> get_prop j ''feature_name'' = Inr name \<and> to_string name = Inl e)
   \<or> (\<exists>cfg. renderChart j w =
         Normal (w\<lparr>chart_log := chart_log w @
                        (case priceChart w of None \<Rightarrow> [] | Some c \<Rightarrow> [Destroyed c]) @
                        [Constructed (charts_created w) cfg],
                   charts_created := Suc (charts_created w),
                   priceChart := Some (charts_created w)\<rparr>))"
proof (cases "get_prop j ''x_values''")
  case (Inl e)
  then show ?thesis by (simp add: renderChart_def)
next
  case xs: (Inr xs)
  then obtain ps name where ps: "get_prop j ''prices'' = Inr ps"
    and name: "get_prop j ''feature_name'' = Inr name"
    using get_prop_defined by blast
  show ?thesis
  proof (cases "call_map xs (\<lambda>v. call_toFixed v 2)")
    case (Inl e)
    with xs show ?thesis by (simp add: renderChart_def)
  next
    case labels: (Inr labels)
    show ?thesis
    proof (cases "call_map ps (\<lambda>p. divide_by p (Fin 1000))")
      case (Inl e)
      with xs ps labels show ?thesis by (simp add: renderChart_def)
    next
      case data: (Inr data)
      show ?thesis
      proof (cases "to_string name")
        case (Inl e)
        with xs ps name labels data show ?thesis
          by (cases "priceChart w") (simp_all add: renderChart_def)
      next
        case (Inr name_text)
        with xs ps name labels data have "renderChart j w =
          Normal (w\<lparr>chart_log := chart_log w @
                        (case priceChart w of None \<Rightarrow> [] | Some c \<Rightarrow> [Destroyed c]) @
                        [Constructed (charts_created w)
                          \<lparr>chart_type = ''line'', chart_labels = labels,
                           dataset_label = ''Precio (miles de $) vs '' @ name_text,
                           chart_data = data, fill = False, tension = round_double (2 / 10),
                           responsive = True, interaction_mode = ''index'', intersect = False,
                           x_title_display = True, x_title_text = name, y_title_display = True,
                           y_title_text = ''Precio estimado (miles de $)''\<rparr>],
                   charts_created := Suc (charts_created w),
                   priceChart := Some (charts_created w)\<rparr>)"
          by (cases "priceChart w") (simp_all add: renderChart_def new_Chart_def chart_destroy_def)
        then show ?thesis by blast
      qed
    qed
  qed
qed

lemma btnCurve_click_try_effect:
  assumes "btnCurve_click_try s w = Throw e w1"
  shows "w1 = w
       \<or> (\<exists>c r j name. priceChart w = Some c \<and> w1 = chart_destroy c w \<and> s = Inr r \<and> ok r
            \<and> body_json r = Inr j \<and> get_prop j ''feature_name'' = Inr name \<and> to_string name = Inl e)"
proof (cases s)
  case (Inl a)
  with assms show ?thesis by (simp add: btnCurve_click_try_def)
next
  case (Inr r)
  show ?thesis
  proof (cases "ok r")
    case False
    with Inr assms show ?thesis by (auto simp: btnCurve_click_try_def split: sum.splits)
  next
    case True
    show ?thesis
    proof (cases "body_json r")
      case (Inl a)
      with Inr True assms show ?thesis by (simp add: btnCurve_click_try_def)
    next
      case j: (Inr j)
      with Inr True assms have "renderChart j w = Throw e w1"
        by (simp add: btnCurve_click_try_def)
      with renderChart_effect [of j w] Inr True j show ?thesis
        by auto
    qed
  qed
qed

lemma chart_destroy_simps [simp]:
  "chart_log (chart_destroy c w) = chart_log w @ [Destroyed c]"
  "priceChart (chart_destroy c w) = priceChart w"
  "charts_created (chart_destroy c w) = charts_created w"
  "document (chart_destroy c w) = document w"
  "wording (chart_destroy c w) = wording w"
  "calls (chart_destroy c w) = calls w"
  by (simp_all add: chart_destroy_def)

lemma chart_invariant_loaded: "chart_invariant (loaded doc wd)"
  by (simp add: chart_invariant_def loaded_def)

lemma chart_invariant_cong:
  "chart_log w' = chart_log w \<Longrightarrow> priceChart w' = priceChart w \<Longrightarrow>
   charts_created w' = charts_created w \<Longrightarrow> chart_invariant w \<Longrightarrow> chart_invariant w'"
  by (simp add: chart_invariant_def)

lemma prefixes_append:
  assumes "\<forall>n. \<exists>c. live (take n es) \<subseteq> {c}" and "\<exists>c. live (es @ [e]) \<subseteq> {c}"
  shows "\<forall>n. \<exists>c. live (take n (es @ [e])) \<subseteq> {c}"
proof
  fix n
  show "\<exists>c. live (take n (es @ [e])) \<subseteq> {c}"
  proof (cases "n \<le> length es")
    case True
    then show ?thesis using assms(1) by simp
  next
    case False
    then show ?thesis using assms(2) by simp
  qed
qed

lemma chart_invariant_destroy:
  assumes "chart_invariant w" and "priceChart w = Some c"
  shows "chart_invariant (chart_destroy c w)" and "live (chart_log (chart_destroy c w)) = {}"
proof -
  from assms have l: "live (chart_log w) \<subseteq> {c}"
    by (simp add: chart_invariant_def)
  then show e: "live (chart_log (chart_destroy c w)) = {}"
    by auto
  have "\<forall>n. \<exists>c'. live (take n (chart_log w @ [Destroyed c])) \<subseteq> {c'}"
  proof (rule prefixes_append)
    show "\<forall>n. \<exists>c. live (take n (chart_log w)) \<subseteq> {c}"
      using assms(1) by (simp add: chart_invariant_def)
    show "\<exists>c'. live (chart_log w @ [Destroyed c]) \<subseteq> {c'}"
      using l by auto
  qed
  with assms e show "chart_invariant (chart_destroy c w)"
    by (auto simp: chart_invariant_def)
qed

lemma chart_invariant_construct:
  assumes "chart_invariant w" and "live (chart_log w) = {}"
  shows "chart_invariant (w\<lparr>chart_log := chart_log w @ [Constructed (charts_created w) cfg],
                            charts_created := Suc (charts_created w),
                            priceChart := Some (charts_created w)\<rparr>)"
proof -
  have "\<forall>n. \<exists>c'. live (take n (chart_log w @ [Constructed (charts_created w) cfg])) \<subseteq> {c'}"
  proof (rule prefixes_append)
    show "\<forall>n. \<exists>c. live (take n (chart_log w)) \<subseteq> {c}"
      using assms(1) by (simp add: chart_invariant_def)
    show "\<exists>c'. live (chart_log w @ [Constructed (charts_created w) cfg]) \<subseteq> {c'}"
      using assms(2) by simp
  qed
  with assms(2) show ?thesis
    by (simp add: chart_invariant_def)
qed

lemma chart_invariant_catch_block: "chart_invariant w \<Longrightarrow> chart_invariant (catch_block e w)"
  by (rule chart_invariant_cong [of _ w]) (simp_all add: catch_block_shows)

lemma renderChart_normal:
  assumes "renderChart j w = Normal w'"
  shows "\<exists>cfg. w' = (case priceChart w of None \<Rightarrow> w | Some c \<Rightarrow> chart_destroy c w)
           \<lparr>chart_log := chart_log (case priceChart w of None \<Rightarrow> w | Some c \<Rightarrow> chart_destroy c w) @
                            [Constructed (charts_created w) cfg],
             charts_created := Suc (charts_created w),
             priceChart := Some (charts_created w)\<rparr>"
  using renderChart_effect [of j w] assms
  by (auto simp: chart_destroy_def split: option.splits)

lemma chart_invariant_renderChart_normal:
  assumes "chart_invariant w" and "renderChart j w = Normal w'"
  shows "chart_invariant w'"
proof -
  let ?w1 = "case priceChart w of None \<Rightarrow> w | Some c \<Rightarrow> chart_destroy c w"
  have inv1: "chart_invariant ?w1" and empty1: "live (chart_log ?w1) = {}"
    using assms(1) chart_invariant_destroy [of w]
    by (auto simp: chart_invariant_def split: option.splits)
  have c1: "charts_created ?w1 = charts_created w"
    by (simp add: chart_destroy_def split: option.splits)
  from renderChart_normal [OF assms(2)] obtain cfg where
    "w' = ?w1\<lparr>chart_log := chart_log ?w1 @ [Constructed (charts_created w) cfg],
              charts_created := Suc (charts_created w),
              priceChart := Some (charts_created w)\<rparr>"
    by blast
  then show ?thesis
    using chart_invariant_construct [OF inv1 empty1, of cfg] c1 by simp
qed

lemma chart_invariant_btnCurve_click_resume:
  assumes "chart_invariant w"
  shows "chart_invariant (btnCurve_click_resume s w)"
proof (cases "btnCurve_click_try s w")
  case (Normal w')
  then obtain r j where "s = Inr r" "ok r" "body_json r = Inr j" "renderChart j w = Normal w'"
    by (auto simp: btnCurve_click_try_def split: sum.splits if_splits)
  then have "chart_invariant w'"
    using chart_invariant_renderChart_normal [OF assms] by blast
  with Normal show ?thesis
    by (simp add: btnCurve_click_resume_def)
next
  case (Throw e w1)
  from btnCurve_click_try_effect [OF this] assms have "chart_invariant w1"
    using chart_invariant_destroy(1) by blast
  with Throw show ?thesis
    by (simp add: btnCurve_click_resume_def chart_invariant_catch_block)
qed

lemma chart_invariant_form_submit_resume:
  assumes "chart_invariant w"
  shows "chart_invariant (form_submit_resume s w)"
  using form_submit_try_cases [of s w] assms
  by (auto simp: form_submit_resume_def chart_invariant_catch_block
      intro: chart_invariant_cong [of _ w])

lemma chart_invariant_step: "chart_invariant w \<Longrightarrow> chart_invariant (step w ev)"
proof (cases ev)
  case SubmitForm
  assume "chart_invariant w"
  then show ?thesis
    using SubmitForm by (auto simp: form_submit_eq intro: chart_invariant_cong [of _ w])
next
  case ClickCurve
  assume "chart_invariant w"
  then show ?thesis
    using ClickCurve by (auto simp: btnCurve_click_eq intro: chart_invariant_cong [of _ w])
next
  case (Fulfil i)
  assume "chart_invariant w"
  then show ?thesis
    using Fulfil by simp
next
  case (Settle i s)
  assume inv: "chart_invariant w"
  let ?w = "w\<lparr>calls := (calls w)[i := (calls w ! i)\<lparr>settled := True\<rparr>]\<rparr>"
  have "chart_invariant ?w"
    using inv by (simp add: chart_invariant_def)
  then have "chart_invariant (resume h s ?w)" for h
    by (cases h) (simp_all add: resume_def chart_invariant_form_submit_resume
        chart_invariant_btnCurve_click_resume)
  with inv Settle show ?thesis
    by simp
next
  case (UserInput ident v)
  assume "chart_invariant w"
  then show ?thesis
    using UserInput by (auto intro: chart_invariant_cong [of _ w])
qed

lemma chart_invariant_run: "chart_invariant w \<Longrightarrow> chart_invariant (run w es)"
  unfolding run_def
  by (induction es arbitrary: w) (simp_all add: chart_invariant_step)

lemma run_two_clicks:
  "chart_log (run fresh two_clicks)
     = [Constructed 0 sample_chart, Destroyed 0, Constructed 1 sample_chart]"
  "priceChart (run fresh two_clicks) = Some 1"
  "charts_created (run fresh two_clicks) = 2"
proof -
  have "run fresh two_clicks = run charted [ClickCurve, Settle 1 (Inr (json_response sample_curve))]"
    by (simp add: two_clicks_def charted_def run_def)
  then show "chart_log (run fresh two_clicks)
     = [Constructed 0 sample_chart, Destroyed 0, Constructed 1 sample_chart]"
    "priceChart (run fresh two_clicks) = Some 1"
    "charts_created (run fresh two_clicks) = 2"
    by (simp_all add: run_def btnCurve_click_eq resume_def btnCurve_click_resume_def
        btnCurve_click_try_def json_response_def renderChart_sample charted_simps nth_append)
qed

section \<open>Basic facts about runs of the submit handler\<close>

lemma awaiting_hidden_form_submit: "awaiting_hidden (length (calls w)) (form_submit w)"
  by (simp add: awaiting_hidden_def form_submit_eq resultBox_def errorBox_def
      document_update_element)

lemma visible_field_value [simp]: "visible (e\<lparr>field_value := v\<rparr>) = visible e"
  by (simp add: visible_def)

lemma awaiting_hidden_step:
  assumes "awaiting_hidden i w" and "\<not> is_completion ev"
  shows "awaiting_hidden i (step w ev)"
proof (cases ev)
  case SubmitForm
  with assms(1) show ?thesis
    by (simp add: awaiting_hidden_def form_submit_eq resultBox_def errorBox_def
        document_update_element nth_append)
next
  case ClickCurve
  with assms(1) show ?thesis
    by (simp add: awaiting_hidden_def btnCurve_click_eq resultBox_def errorBox_def
        document_update_element nth_append)
next
  case (Fulfil j)
  with assms(1) show ?thesis by simp
next
  case (Settle j s)
  with assms(2) show ?thesis by simp
next
  case (UserInput ident v)
  with assms(1) show ?thesis
    by (auto simp: awaiting_hidden_def resultBox_def errorBox_def document_update_element)
qed

lemma awaiting_hidden_run:
  "awaiting_hidden i w \<Longrightarrow> list_all (\<lambda>ev. \<not> is_completion ev) evs \<Longrightarrow> awaiting_hidden i (run w evs)"
  unfolding run_def
  by (induction evs arbitrary: w) (simp_all add: awaiting_hidden_step)

lemma form_submit_run_eq:
  assumes "list_all (\<lambda>ev. \<not> is_completion ev) between"
  shows "\<exists>w'. form_submit_run between s w = form_submit_resume s w'
            \<and> \<not> visible (resultBox w') \<and> \<not> visible (errorBox w')
            \<and> settled (calls w' ! length (calls w))"
proof -
  let ?i = "length (calls w)"
  let ?w = "run (step w SubmitForm) between"
  have a: "awaiting_hidden ?i ?w"
    using awaiting_hidden_run [OF _ assms] awaiting_hidden_form_submit [of w] by simp
  let ?w' = "?w\<lparr>calls := (calls ?w)[?i := (calls ?w ! ?i)\<lparr>settled := True\<rparr>]\<rparr>"
  have "form_submit_run between s w = form_submit_resume s ?w'"
    using a by (simp add: form_submit_run_def awaiting_hidden_def resume_def)
  moreover have "\<not> visible (resultBox ?w')" "\<not> visible (errorBox ?w')"
    using a by (simp_all add: awaiting_hidden_def resultBox_def errorBox_def)
  moreover have "settled (calls ?w' ! ?i)"
    using a by (simp add: awaiting_hidden_def)
  ultimately show ?thesis by blast
qed

section \<open>The chart renderer\<close>

text \<open>
  C1 (amended).  For a curve response whose \<^verbatim>\<open>x_values\<close> and \<^verbatim>\<open>prices\<close> are arrays of
  numbers (and whose \<^verbatim>\<open>feature_name\<close> has a string form), the renderer makes a chart
  whose labels are \<^verbatim>\<open>toFixed(2)\<close> of each abscissa and whose data are each price divided
  by 1000, the quotient rounded to a double.  \<^verbatim>\<open>toFixed(2)\<close> writes a number with exactly
  two decimal places when its magnitude is below \<open>10^21\<close>; from \<open>10^21\<close> on it gives the
  text \<^verbatim>\<open>toString\<close> gives.  For the response
  \<^verbatim>\<open>{feature_name:"med_inc", x_values:[1,2], prices:[100000,200000]}\<close> the labels are
  \<^verbatim>\<open>["1.00","2.00"]\<close> and the data \<^verbatim>\<open>[100,200]\<close>.
\<close>

theorem labels_and_data_of_curve:
  assumes "get_prop curveData ''x_values'' = Inr (VArr (map VNum xs))"
    and "get_prop curveData ''prices'' = Inr (VArr (map VNum ps))"
    and "get_prop curveData ''feature_name'' = Inr name"
    and "to_string name = Inr name_text"
  shows "(\<exists>w' cfg. renderChart curveData w = Normal w'
              \<and> priceChart w' = Some (charts_created w)
              \<and> last (chart_log w') = Constructed (charts_created w) cfg
              \<and> chart_labels cfg = map (\<lambda>x. toFixed x 2) xs
              \<and> chart_data cfg = map (\<lambda>p. js_divide p (Fin 1000)) ps)
         \<and> (\<forall>q. \<bar>q\<bar> < 10 ^ 21 \<longrightarrow> toFixed (Fin q) 2 = two_decimal_places q)
         \<and> toFixed NegZero 2 = two_decimal_places 0
         \<and> (\<forall>q. 10 ^ 21 \<le> \<bar>q\<bar> \<longrightarrow> toFixed (Fin q) 2 = number_to_string (Fin q))
         \<and> (\<forall>p. js_divide (Fin p) (Fin 1000) = round_double (p / 1000))"
proof -
  have "js_divide (Fin p) (Fin 1000) = round_double (p / 1000)" for p
    by (simp add: js_divide_def is_zero_def is_infinite_def signed_zero_def round_double_def)
  then show ?thesis
    using assms
    by (simp add: renderChart_def labels_of_numbers data_of_numbers new_Chart_def chart_destroy_def
        toFixed_two_decimal_places toFixed_negative_zero toFixed_large split: option.splits)
qed

theorem labels_and_data_of_curve_witness:
  "(\<exists>w' cfg. renderChart sample_curve fresh = Normal w'
        \<and> priceChart w' = Some 0
        \<and> last (chart_log w') = Constructed 0 cfg
        \<and> chart_labels cfg = [''1.00'', ''2.00'']
        \<and> chart_data cfg = [Fin 100, Fin 200])
   \<and> toFixed (Fin (5 / 4)) 2 = two_decimal_places (5 / 4)"
proof -
  have l: "toFixed (Fin 1) 2 = ''1.00''" "toFixed (Fin 2) 2 = ''2.00''"
    by (simp_all add: number_eval)
  have d: "js_divide (Fin 100000) (Fin 1000) = Fin 100" "js_divide (Fin 200000) (Fin 1000) = Fin 200"
    by (simp_all add: number_eval)
  show ?thesis
    using labels_and_data_of_curve [of sample_curve "[Fin 1, Fin 2]" "[Fin 100000, Fin 200000]"
        "VStr ''med_inc''" "''med_inc''" fresh] l d
    by (simp add: sample_curve_def)
qed

text \<open>
  The claim without the bound fails: for the abscissa \<open>10^21\<close> the label is \<^verbatim>\<open>1e+21\<close>,
  not the numeral with two decimal places.
\<close>

theorem label_of_huge_value_is_not_two_decimal_places:
  "renderChart huge_curve fresh =
     Normal (fresh\<lparr>chart_log :=
                      [Constructed 0
                         \<lparr>chart_type = ''line'',
                          chart_labels = [''1e+21''],
                          dataset_label = ''Precio (miles de $) vs population'',
                          chart_data = [Fin 100],
                          fill = False,
                          tension = round_double (2 / 10),
                          responsive = True,
                          interaction_mode = ''index'',
                          intersect = False,
                          x_title_display = True,
                          x_title_text = VStr ''population'',
                          y_title_display = True,
                          y_title_text = ''Precio estimado (miles de $)''\<rparr>],
                   charts_created := 1,
                   priceChart := Some 0\<rparr>)
   \<and> two_decimal_places (10 ^ 21) = ''1000000000000000000000.00''"
proof -
  have l: "toFixed (Fin (10 ^ 21)) 2 = ''1e+21''"
    by (simp add: number_eval)
  have d: "js_divide (Fin 100000) (Fin 1000) = Fin 100"
    by (simp add: number_eval)
  have t: "two_decimal_places (10 ^ 21) = ''1000000000000000000000.00''"
    by (simp add: two_decimal_places_def number_eval)
  show ?thesis
    using l d t
    by (simp add: huge_curve_def renderChart_def new_Chart_def divide_by_def fresh_def loaded_def)
qed

section \<open>Error responses\<close>

text \<open>
  C2.  In both handlers, when a call whose handler has not yet run to its end is
  answered with a response whose status is not a success and whose body reads as the
  text \<open>t\<close>, the handler, resumed after the reading of the body, puts the error region on
  display with \<open>t\<close> as its text, or with the handler's fixed message when \<open>t\<close> is empty.  For the body \<^verbatim>\<open>bad input\<close> the region shows
  \<^verbatim>\<open>bad input\<close>.
\<close>

theorem non_success_status_shows_body_text:
  assumes "i < length (calls w)"
    and "\<not> settled (calls w ! i)"
    and "\<not> ok r"
    and "body_text r = Inr t"
  shows "visible (errorBox (step w (Settle i (Inr r))))
       \<and> textContent (errorBox (step w (Settle i (Inr r))))
           = (if t = [] then generic_message (handler (calls w ! i)) else t)"
  using assms
  by (cases "handler (calls w ! i)")
     (simp_all add: resume_def form_submit_resume_def form_submit_try_def
        btnCurve_click_resume_def btnCurve_click_try_def catch_block_shows generic_message_def)

theorem non_success_status_shows_body_text_witness:
  "visible (errorBox (step (step fresh SubmitForm) (Settle 0 (Inr (error_response ''bad input'')))))
   \<and> textContent (errorBox (step (step fresh SubmitForm) (Settle 0 (Inr (error_response ''bad input'')))))
       = ''bad input''
   \<and> visible (errorBox (step (step fresh ClickCurve) (Settle 0 (Inr (error_response ''bad input'')))))
   \<and> textContent (errorBox (step (step fresh ClickCurve) (Settle 0 (Inr (error_response ''bad input'')))))
       = ''bad input''
   \<and> textContent (errorBox (step (step fresh ClickCurve) (Settle 0 (Inr (error_response '''')))))
       = ''Error en la llamada a /feature_curve''"
  using non_success_status_shows_body_text [of 0 "step fresh SubmitForm" "error_response ''bad input''" "''bad input''"]
        non_success_status_shows_body_text [of 0 "step fresh ClickCurve" "error_response ''bad input''" "''bad input''"]
        non_success_status_shows_body_text [of 0 "step fresh ClickCurve" "error_response ''''" "''''"]
  by (simp add: form_submit_def btnCurve_click_def fetch_def Let_def error_response_def generic_message_def
      fresh_def loaded_def)

section \<open>The error taxonomy\<close>

text \<open>
  C3 (amended).  In both handlers a network failure, a response whose status is not a
  success, and a success response whose body is not JSON end in the error outcome, and
  so does, in the curve handler, a parsed response without \<^verbatim>\<open>x_values\<close> or without
  \<^verbatim>\<open>prices\<close>: the handler ends in its \<^verbatim>\<open>catch\<close> block, which shows the error region with
  the error's message and changes neither the result region, nor the price text, nor
  the chart.  A prediction response that is a JSON object without
  \<^verbatim>\<open>predicted_price_formatted\<close> is no failure for the script: the result region is shown
  with the text \<^verbatim>\<open>Precio estimado: undefined\<close>.
\<close>

theorem failures_end_in_error_outcome:
  "resume h (Inl e) w = catch_block e w
   \<and> (\<not> ok r \<longrightarrow>
        resume h (Inr r) w =
          catch_block (case body_text r of
                         Inl e' \<Rightarrow> e'
                       | Inr t \<Rightarrow> Error (if t = [] then generic_message h else t)) w)
   \<and> (ok r \<and> body_json r = Inl e \<longrightarrow> resume h (Inr r) w = catch_block e w)
   \<and> (ok r \<and> body_json r = Inr j
        \<and> (get_prop j ''x_values'' = Inr Undefined \<or> get_prop j ''prices'' = Inr Undefined) \<longrightarrow>
        (\<exists>e'. resume Curve (Inr r) w = catch_block e' w))
   \<and> (ok r \<and> body_json r = Inr (VObj kvs) \<and> map_of kvs ''predicted_price_formatted'' = None \<longrightarrow>
        resume Predict (Inr r) w =
          update_element ''result'' (classList_remove ''hidden'')
            (update_element ''predicted-price'' (set_textContent ''Precio estimado: undefined'') w))
   \<and> visible (errorBox (catch_block e w))
   \<and> textContent (errorBox (catch_block e w)) = message (wording w) e
   \<and> resultBox (catch_block e w) = resultBox w
   \<and> predictedPrice (catch_block e w) = predictedPrice w
   \<and> priceChart (catch_block e w) = priceChart w
   \<and> chart_log (catch_block e w) = chart_log w"
proof -
  have a: "resume h (Inl e) w = catch_block e w"
    by (cases h) (simp_all add: resume_def form_submit_resume_def form_submit_try_def
        btnCurve_click_resume_def btnCurve_click_try_def)
  have b: "\<not> ok r \<Longrightarrow> resume h (Inr r) w =
          catch_block (case body_text r of
                         Inl e' \<Rightarrow> e'
                       | Inr t \<Rightarrow> Error (if t = [] then generic_message h else t)) w"
    by (cases h) (simp_all add: resume_def form_submit_resume_def form_submit_try_def
        btnCurve_click_resume_def btnCurve_click_try_def generic_message_def split: sum.splits)
  have c: "ok r \<and> body_json r = Inl e \<Longrightarrow> resume h (Inr r) w = catch_block e w"
    by (cases h) (simp_all add: resume_def form_submit_resume_def form_submit_try_def
        btnCurve_click_resume_def btnCurve_click_try_def)
  have d: "\<exists>e'. resume Curve (Inr r) w = catch_block e' w"
    if "ok r \<and> body_json r = Inr j
        \<and> (get_prop j ''x_values'' = Inr Undefined \<or> get_prop j ''prices'' = Inr Undefined)"
  proof -
    from that obtain e' where "renderChart j w = Throw e' w"
      using renderChart_missing_field by blast
    with that show ?thesis
      by (auto simp: resume_def btnCurve_click_resume_def btnCurve_click_try_def)
  qed
  have f: "resume Predict (Inr r) w =
          update_element ''result'' (classList_remove ''hidden'')
            (update_element ''predicted-price'' (set_textContent ''Precio estimado: undefined'') w)"
    if "ok r \<and> body_json r = Inr (VObj kvs) \<and> map_of kvs ''predicted_price_formatted'' = None"
    using that by (simp add: resume_def form_submit_resume_def form_submit_try_def)
  show ?thesis
    using a b c d f by (simp add: catch_block_shows catch_block_frame)
qed

theorem failures_end_in_error_outcome_witness:
  "resume Predict (Inl (Error ''Failed to fetch'')) fresh = catch_block (Error ''Failed to fetch'') fresh
   \<and> resume Curve (Inr (error_response ''bad input'')) fresh = catch_block (Error ''bad input'') fresh
   \<and> resume Predict (Inr \<lparr>ok = True, body_text = Inr ''<html>'', body_json = Inl (Error ''Unexpected token'')\<rparr>) fresh
       = catch_block (Error ''Unexpected token'') fresh
   \<and> (\<exists>e'. resume Curve (Inr (json_response (VObj [(''feature_name'', VStr ''med_inc'')]))) fresh
       = catch_block e' fresh)
   \<and> resume Predict (Inr (json_response (VObj []))) fresh =
          update_element ''result'' (classList_remove ''hidden'')
            (update_element ''predicted-price'' (set_textContent ''Precio estimado: undefined'') fresh)
   \<and> visible (errorBox (catch_block (Error ''Failed to fetch'') fresh))
   \<and> textContent (errorBox (catch_block (Error ''Failed to fetch'') fresh)) = ''Failed to fetch''"
  using failures_end_in_error_outcome [of Predict "Error ''Failed to fetch''" fresh "error_response ''bad input''"]
        failures_end_in_error_outcome [of Curve "Error ''Failed to fetch''" fresh "error_response ''bad input''"]
        failures_end_in_error_outcome [of Predict "Error ''Unexpected token''" fresh
          "\<lparr>ok = True, body_text = Inr ''<html>'', body_json = Inl (Error ''Unexpected token'')\<rparr>"]
        failures_end_in_error_outcome [of Curve "Error ''Failed to fetch''" fresh
          "json_response (VObj [(''feature_name'', VStr ''med_inc'')])" "VObj [(''feature_name'', VStr ''med_inc'')]"]
        failures_end_in_error_outcome [of Predict "Error ''Failed to fetch''" fresh
          "json_response (VObj [])" _ "[]"]
  by (simp add: error_response_def json_response_def generic_message_def)

text \<open>
  The claim as it stands fails for the missing field of the prediction response: on the
  response \<^verbatim>\<open>{}\<close> the result region is shown and the error region stays hidden.
\<close>

theorem missing_price_field_is_rendered_as_success:
  "visible (resultBox (form_submit_alone (Inr (json_response (VObj []))) fresh))
   \<and> textContent (predictedPrice (form_submit_alone (Inr (json_response (VObj []))) fresh))
       = ''Precio estimado: undefined''
   \<and> \<not> visible (errorBox (form_submit_alone (Inr (json_response (VObj []))) fresh))"
  by (simp add: form_submit_alone_def form_submit_def fetch_def Let_def resume_def
      form_submit_resume_def form_submit_try_def json_response_def resultBox_def errorBox_def
      predictedPrice_def document_update_element)

section \<open>Result or error\<close>

text \<open>
  C4 (amended).  Take a run of the submit handler, from the event to the handler's end,
  between whose start and completion no run of a handler is completed.  Meanwhile the
  user may edit, submit again or ask for a curve, and requests may be answered, this
  one's too, as long as no handler has yet gone on from reading the body or from the
  rejection of its \<^verbatim>\<open>fetch\<close>.  When the run is complete, exactly one of the result region
  and the error region is on display: the result region when the response is a success
  whose \<^verbatim>\<open>predicted_price_formatted\<close> has a string form, the error region after a network
  failure, a status that is not a success, or a body that is not JSON.
\<close>

theorem one_region_after_undisturbed_submit:
  assumes "list_all (\<lambda>ev. \<not> is_completion ev) between"
  shows "settled (calls (form_submit_run between s w) ! length (calls w))
       \<and> visible (resultBox (form_submit_run between s w))
           \<noteq> visible (errorBox (form_submit_run between s w))
       \<and> (s = Inl e \<or> s = Inr r \<and> (\<not> ok r \<or> body_json r = Inl e) \<longrightarrow>
            visible (errorBox (form_submit_run between s w))
            \<and> \<not> visible (resultBox (form_submit_run between s w)))
       \<and> (s = Inr r \<and> ok r \<and> body_json r = Inr j
            \<and> get_prop j ''predicted_price_formatted'' = Inr v \<and> to_string v = Inr t \<longrightarrow>
            visible (resultBox (form_submit_run between s w))
            \<and> \<not> visible (errorBox (form_submit_run between s w)))"
proof -
  from form_submit_run_eq [OF assms] obtain w' where
    eq: "form_submit_run between s w = form_submit_resume s w'"
    and hidden: "\<not> visible (resultBox w')" "\<not> visible (errorBox w')"
    and complete: "settled (calls w' ! length (calls w))"
    by blast
  have finished: "settled (calls (form_submit_resume s w') ! length (calls w))"
    using complete by (simp add: calls_form_submit_resume)
  have one: "visible (resultBox (form_submit_resume s w')) \<noteq> visible (errorBox (form_submit_resume s w'))"
    using form_submit_try_cases [of s w'] form_submit_resume_throw [of s w']
      form_submit_resume_normal [of s w'] hidden
    by blast
  have fail: "visible (errorBox (form_submit_resume s w')) \<and> \<not> visible (resultBox (form_submit_resume s w'))"
    if "s = Inl e \<or> s = Inr r \<and> (\<not> ok r \<or> body_json r = Inl e)"
  proof -
    from that obtain e' where "form_submit_try s w' = Throw e' w'"
      using form_submit_try_failures by (cases "ok r") blast+
    then show ?thesis
      using form_submit_resume_throw [of s w' e'] hidden by simp
  qed
  have succ: "visible (resultBox (form_submit_resume s w')) \<and> \<not> visible (errorBox (form_submit_resume s w'))"
    if "s = Inr r \<and> ok r \<and> body_json r = Inr j
        \<and> get_prop j ''predicted_price_formatted'' = Inr v \<and> to_string v = Inr t"
    using that form_submit_try_success [of r j v t w']
      form_submit_resume_normal [of s w' "''Precio estimado: '' @ t"] hidden
    by simp
  show ?thesis
    unfolding eq using finished one fail succ by blast
qed

theorem one_region_after_undisturbed_submit_witness:
  "visible (errorBox (form_submit_run busy (Inl (Error ''Failed to fetch'')) fresh))
   \<and> \<not> visible (resultBox (form_submit_run busy (Inl (Error ''Failed to fetch'')) fresh))
   \<and> visible (errorBox (form_submit_run (Fulfil 0 # busy) (Inr (error_response ''bad input'')) fresh))
   \<and> \<not> visible (resultBox (form_submit_run (Fulfil 0 # busy) (Inr (error_response ''bad input'')) fresh))
   \<and> visible (resultBox (form_submit_run (busy @ [Fulfil 0]) (Inr (json_response sample_price)) fresh))
   \<and> \<not> visible (errorBox (form_submit_run (busy @ [Fulfil 0]) (Inr (json_response sample_price)) fresh))"
proof -
  have q: "list_all (\<lambda>ev. \<not> is_completion ev) busy"
    "list_all (\<lambda>ev. \<not> is_completion ev) (Fulfil 0 # busy)"
    "list_all (\<lambda>ev. \<not> is_completion ev) (busy @ [Fulfil 0])"
    by (simp_all add: busy_def)
  have a: "visible (errorBox (form_submit_run busy (Inl (Error ''Failed to fetch'')) fresh))
         \<and> \<not> visible (resultBox (form_submit_run busy (Inl (Error ''Failed to fetch'')) fresh))"
    using one_region_after_undisturbed_submit
      [OF q(1), of "Inl (Error ''Failed to fetch'')" fresh "Error ''Failed to fetch''"
          "error_response []" Null Null "[]"]
    by simp
  have b: "visible (errorBox (form_submit_run (Fulfil 0 # busy) (Inr (error_response ''bad input'')) fresh))
         \<and> \<not> visible (resultBox (form_submit_run (Fulfil 0 # busy) (Inr (error_response ''bad input'')) fresh))"
    using one_region_after_undisturbed_submit
      [OF q(2), of "Inr (error_response ''bad input'')" fresh "Error ''Unexpected token''"
          "error_response ''bad input''" Null Null "[]"]
    by (simp add: error_response_def)
  have c: "visible (resultBox (form_submit_run (busy @ [Fulfil 0]) (Inr (json_response sample_price)) fresh))
         \<and> \<not> visible (errorBox (form_submit_run (busy @ [Fulfil 0]) (Inr (json_response sample_price)) fresh))"
    using one_region_after_undisturbed_submit
      [OF q(3), of "Inr (json_response sample_price)" fresh "Error []"
          "json_response sample_price" sample_price "VStr ''$250,000''" "''$250,000''"]
    by (simp add: json_response_def sample_price_def)
  show ?thesis
    using a b c by simp
qed

text \<open>
  The claim as it stands, for every run, fails when another run is completed in
  between.  The form is submitted, the request is answered with a status that is no
  success, and while the handler reads the body the form is submitted again.  The first
  run is completed and shows the error; then the second request is answered with a
  price, and the second run shows the result beside it.  Between the start of the
  second run and its completion no \<^verbatim>\<open>fetch\<close> but its own has settled.
\<close>

theorem both_regions_visible_after_overlapping_submits:
  "visible (resultBox (run fresh
      [SubmitForm, Fulfil 0, SubmitForm, Settle 0 (Inr (error_response ''bad input'')),
       Fulfil 1, Settle 1 (Inr (json_response sample_price))]))
   \<and> visible (errorBox (run fresh
      [SubmitForm, Fulfil 0, SubmitForm, Settle 0 (Inr (error_response ''bad input'')),
       Fulfil 1, Settle 1 (Inr (json_response sample_price))]))"
  by (simp add: run_def form_submit_def fetch_def Let_def resume_def form_submit_resume_def
      form_submit_try_def json_response_def error_response_def sample_price_def catch_block_def
      resultBox_def errorBox_def document_update_element nth_append)

section \<open>The point prediction\<close>

text \<open>
  C5.  When the prediction request is answered with a success status and a JSON body,
  the handler reads \<^verbatim>\<open>predicted_price_formatted\<close> from it and shows its string form
  behind the label \<^verbatim>\<open>Precio estimado: \<close>: the result region is on display, the price
  element holds the labelled text, and the resumption leaves the error region as it
  is, which after the handler's own first step is hidden. For the response
  \<^verbatim>\<open>{predicted_price_formatted: "$250,000"}\<close> the text is \<^verbatim>\<open>Precio estimado: $250,000\<close>.
\<close>

theorem success_response_is_displayed:
  assumes "ok r"
    and "body_json r = Inr j"
    and "get_prop j ''predicted_price_formatted'' = Inr v"
    and "to_string v = Inr s"
  shows "visible (resultBox (form_submit_resume (Inr r) w))
       \<and> textContent (predictedPrice (form_submit_resume (Inr r) w)) = ''Precio estimado: '' @ s
       \<and> errorBox (form_submit_resume (Inr r) w) = errorBox w
       \<and> visible (resultBox (form_submit_alone (Inr r) w))
       \<and> textContent (predictedPrice (form_submit_alone (Inr r) w)) = ''Precio estimado: '' @ s
       \<and> \<not> visible (errorBox (form_submit_alone (Inr r) w))"
  using assms
  by (simp add: form_submit_alone_def form_submit_def fetch_def resume_def Let_def nth_append
      form_submit_resume_def form_submit_try_def resultBox_def predictedPrice_def errorBox_def
      document_update_element)

theorem success_response_is_displayed_witness:
  "visible (resultBox (form_submit_alone
       (Inr (json_response sample_price)) fresh))
   \<and> textContent (predictedPrice (form_submit_alone
       (Inr (json_response sample_price)) fresh))
     = ''Precio estimado: $250,000''
   \<and> \<not> visible (errorBox (form_submit_alone
       (Inr (json_response sample_price)) fresh))"
  using success_response_is_displayed
    [of "json_response sample_price"
        sample_price
        "VStr ''$250,000''" "''$250,000''" fresh]
  by (simp add: json_response_def sample_price_def)

section \<open>Input that is not a number\<close>

text \<open>
  C6 (amended).  Submitting the form never fails before the request: whatever the
  controls hold, the handler hides both regions and issues one POST to
  \<^verbatim>\<open>/predict_price\<close> whose body is the JSON object of the eight fields.  A control that
  is blank, or whose text does not start with a number, is read as not-a-number, and
  not-a-number is written into its field of the body as \<^verbatim>\<open>null\<close>.
\<close>

theorem blank_field_is_sent_as_null:
  "form_submit w =
     (update_element ''result'' (classList_add ''hidden'')
       (update_element ''error'' (classList_add ''hidden'') w))
       \<lparr>defaultPrevented := True,
        calls := calls w @
          [\<lparr>request = \<lparr>url = ''/predict_price'', http_method = ''POST'',
                        headers = [(''Content-Type'', ''application/json'')],
                        body = Some (base_json w)\<rparr>,
            handler = Predict, settled = False\<rparr>]\<rparr>
   \<and> (list_all is_whitespace s \<longrightarrow> parseFloat s = NaN)
   \<and> (decimal_literal (dropWhile is_whitespace s) = None \<longrightarrow> parseFloat s = NaN)
   \<and> json_number NaN = ''null''"
proof -
  have "decimal_literal (dropWhile is_whitespace s) = None \<longrightarrow> parseFloat s = NaN"
    by (simp add: parseFloat_def)
  moreover have "json_number NaN = ''null''"
    by (simp add: json_number_def)
  ultimately show ?thesis
    using form_submit_eq [of w] blank_is_not_a_number [of s] by blast
qed

theorem blank_field_is_sent_as_null_witness:
  \<open>body (request (last (calls (form_submit sample_without_income)))) =
     Some ''{"med_inc":null,"house_age":41,"ave_rooms":7,"ave_bedrooms":1,"population":322,"ave_occup":2.5,"latitude":37.75,"longitude":-122.25}''
   \<and> parseFloat ''  '' = NaN
   \<and> parseFloat ''abc'' = NaN\<close>
proof -
  have "decimal_literal (dropWhile is_whitespace ''abc'') = None"
    by (simp add: number_eval)
  moreover have "list_all is_whitespace ''  ''"
    by (simp add: is_whitespace_def)
  ultimately show ?thesis
    using blank_field_is_sent_as_null [of sample_without_income "''  ''"]
      blank_field_is_sent_as_null [of sample_without_income "''abc''"]
    by (simp add: base_json_sample_without_income)
qed

text \<open>
  The claim as it stands says that the not-a-number value is forwarded as it is.  With
  the income left empty the value read is \<open>NaN\<close>, whose own text is \<^verbatim>\<open>NaN\<close>, and the
  field of the body holds \<^verbatim>\<open>null\<close>.
\<close>

theorem not_a_number_is_not_sent_as_it_is:
  \<open>parseFloat (field_value (document sample_without_income ''med_inc'')) = NaN
   \<and> number_to_string NaN = ''NaN''
   \<and> body (request (last (calls (form_submit sample_without_income)))) =
     Some ''{"med_inc":null,"house_age":41,"ave_rooms":7,"ave_bedrooms":1,"population":322,"ave_occup":2.5,"latitude":37.75,"longitude":-122.25}''\<close>
proof -
  have "parseFloat (field_value (document sample_without_income ''med_inc'')) = NaN"
    by (simp add: sample_without_income_def loaded_def input_def blank_def blank_is_not_a_number)
  then show ?thesis
    by (simp add: form_submit_eq base_json_sample_without_income)
qed

section \<open>One chart at a time\<close>

text \<open>
  C7.  From the loaded page on, whatever the user does and however the requests
  settle, at most one chart instance is alive after every prefix of the chart library's
  history, and a live instance is the one held in \<^verbatim>\<open>priceChart\<close>, which is empty only
  as long as no chart has been made.  A render that succeeds
  while \<^verbatim>\<open>priceChart\<close> holds an instance first destroys that instance and then constructs
  and stores the replacement, a new instance.  Two curve renders in succession leave the
  history: first chart constructed, first chart destroyed, second chart constructed.
\<close>

theorem at_most_one_live_chart:
  "(\<exists>c. live (take n (chart_log (run (loaded doc wd) es))) \<subseteq> {c})
   \<and> live (chart_log (run (loaded doc wd) es)) \<subseteq> set_option (priceChart (run (loaded doc wd) es))
   \<and> (priceChart w = Some c \<and> renderChart j w = Normal w' \<longrightarrow>
        (\<exists>cfg. chart_log w' = chart_log w @ [Destroyed c, Constructed (charts_created w) cfg]
              \<and> priceChart w' = Some (charts_created w)))
   \<and> (priceChart (run (loaded doc wd) es) = Some c \<longrightarrow> c < charts_created (run (loaded doc wd) es))
   \<and> (priceChart (run (loaded doc wd) es) = None \<longrightarrow> chart_log (run (loaded doc wd) es) = [])"
proof -
  have "chart_invariant (run (loaded doc wd) es)"
    by (simp add: chart_invariant_run chart_invariant_loaded)
  moreover have "\<exists>cfg. chart_log w' = chart_log w @ [Destroyed c, Constructed (charts_created w) cfg]
              \<and> priceChart w' = Some (charts_created w)"
    if "priceChart w = Some c \<and> renderChart j w = Normal w'"
    using that renderChart_normal [of j w w'] by (auto simp: chart_destroy_def)
  ultimately show ?thesis
    by (auto simp: chart_invariant_def)
qed

theorem at_most_one_live_chart_witness:
  "chart_log (run fresh two_clicks)
     = [Constructed 0 sample_chart, Destroyed 0, Constructed 1 sample_chart]
   \<and> (\<exists>c. live (take 2 (chart_log (run fresh two_clicks))) \<subseteq> {c})
   \<and> live (chart_log (run fresh two_clicks)) \<subseteq> {1}
   \<and> renderChart sample_curve charted =
        Normal (charted\<lparr>chart_log := [Constructed 0 sample_chart, Destroyed 0, Constructed 1 sample_chart],
                        charts_created := 2, priceChart := Some 1\<rparr>)
   \<and> (\<exists>cfg. [Constructed 0 sample_chart, Destroyed 0, Constructed 1 sample_chart]
           = chart_log charted @ [Destroyed 0, Constructed 1 cfg])
   \<and> 1 < charts_created (run fresh two_clicks)"
proof -
  have r: "renderChart sample_curve charted =
        Normal (charted\<lparr>chart_log := [Constructed 0 sample_chart, Destroyed 0, Constructed 1 sample_chart],
                        charts_created := 2, priceChart := Some 1\<rparr>)"
    by (simp add: renderChart_sample charted_simps)
  show ?thesis
    using at_most_one_live_chart
      [of 2 empty_page plain_wording two_clicks charted 0 sample_curve
          "charted\<lparr>chart_log := [Constructed 0 sample_chart, Destroyed 0, Constructed 1 sample_chart],
                    charts_created := 2, priceChart := Some 1\<rparr>"]
      at_most_one_live_chart
      [of 2 empty_page plain_wording two_clicks charted 1 sample_curve charted]
      r run_two_clicks
    by (simp add: fresh_def [symmetric] charted_simps)
qed

section \<open>The curve request\<close>

text \<open>
  C8.  A click on the curve button hides the error region and issues one request: a POST
  to \<^verbatim>\<open>/feature_curve\<close> whose body is the JSON object with, in this order, the selected
  \<^verbatim>\<open>feature_name\<close>, \<^verbatim>\<open>base\<close> (the freshly collected base input), \<^verbatim>\<open>min_value\<close> and
  \<^verbatim>\<open>max_value\<close> (\<^verbatim>\<open>parseFloat\<close> of their controls) and \<^verbatim>\<open>num_points\<close> (\<^verbatim>\<open>parseInt\<close> of its
  control in base 10).  Nothing else changes.
\<close>

theorem curve_request:
  "btnCurve_click w =
     (update_element ''error'' (classList_add ''hidden'') w)
       \<lparr>calls := calls w @
          [\<lparr>request = \<lparr>url = ''/feature_curve'', http_method = ''POST'',
                        headers = [(''Content-Type'', ''application/json'')],
                        body = Some (curve_json w)\<rparr>,
            handler = Curve, settled = False\<rparr>]\<rparr>"
  by (rule btnCurve_click_eq)

theorem curve_request_witness:
  \<open>body (request (last (calls (btnCurve_click sample)))) =
     Some ''{"feature_name":"med_inc","base":{"med_inc":8.5,"house_age":41,"ave_rooms":7,"ave_bedrooms":1,"population":322,"ave_occup":2.5,"latitude":37.75,"longitude":-122.25},"min_value":1,"max_value":10,"num_points":20}''
   \<and> \<not> visible (errorBox (btnCurve_click sample))\<close>
proof -
  have \<open>curve_json sample =
     ''{"feature_name":"med_inc","base":{"med_inc":8.5,"house_age":41,"ave_rooms":7,"ave_bedrooms":1,"population":322,"ave_occup":2.5,"latitude":37.75,"longitude":-122.25},"min_value":1,"max_value":10,"num_points":20}''\<close>
    using sample_numbers
    by (simp add: curve_json_def base_json_sample quote_def quote_char_def)
       (simp add: sample_def loaded_def sample_page_def input_def quote_char_def)
  then show ?thesis
    using curve_request [of sample]
    by (simp add: errorBox_def document_update_element)
qed

section \<open>What the curve handler leaves alone\<close>




section \<open>A curve response without its sequences\<close>

text \<open>
  C10.  When the parsed curve response has no \<^verbatim>\<open>x_values\<close> or no \<^verbatim>\<open>prices\<close>, the renderer
  throws in the state it was called in, before it destroys or replaces anything:
  \<^verbatim>\<open>priceChart\<close> and the chart history are unchanged, and the handler's \<^verbatim>\<open>catch\<close> block
  shows the error's message in the error region.
\<close>

theorem missing_sequences_leave_the_chart:
  assumes "ok r"
    and "body_json r = Inr j"
    and "get_prop j ''x_values'' = Inr Undefined \<or> get_prop j ''prices'' = Inr Undefined"
  shows "\<exists>e. renderChart j w = Throw e w
           \<and> btnCurve_click_resume (Inr r) w = catch_block e w
           \<and> priceChart (btnCurve_click_resume (Inr r) w) = priceChart w
           \<and> chart_log (btnCurve_click_resume (Inr r) w) = chart_log w
           \<and> visible (errorBox (btnCurve_click_resume (Inr r) w))
           \<and> textContent (errorBox (btnCurve_click_resume (Inr r) w)) = message (wording w) e"
proof -
  from assms(3) obtain e where "renderChart j w = Throw e w"
    using renderChart_missing_field by blast
  with assms(1,2) show ?thesis
    by (auto simp: btnCurve_click_resume_def btnCurve_click_try_def catch_block_shows)
qed

theorem missing_sequences_leave_the_chart_witness:
  "\<exists>e. renderChart incomplete_curve charted = Throw e charted
     \<and> priceChart (btnCurve_click_resume (Inr (json_response incomplete_curve)) charted) = Some 0
     \<and> chart_log (btnCurve_click_resume (Inr (json_response incomplete_curve)) charted)
         = [Constructed 0 sample_chart]
     \<and> visible (errorBox (btnCurve_click_resume (Inr (json_response incomplete_curve)) charted))"
proof -
  have "ok (json_response incomplete_curve)"
    and "body_json (json_response incomplete_curve) = Inr incomplete_curve"
    and "get_prop incomplete_curve ''x_values'' = Inr Undefined"
    by (simp_all add: json_response_def incomplete_curve_def)
  then show ?thesis
    using missing_sequences_leave_the_chart
      [of "json_response incomplete_curve" incomplete_curve charted]
    by (auto simp: charted_simps)
qed

end
